theory Spec2Isabelle
  imports Complex_Main "HOL-Library.List_Lexorder" "HOL-Library.Char_ord"
    "HOL-Library.Product_Lexorder"
begin

section \<open>Strings, numbers and the pandas column operations the code uses\<close>

text \<open>
  A Python \<open>str\<close> is the list of its code points. Every code point the rules of this
  repository mention lies below 256, so a \<^typ>\<open>char\<close> holds one code point
  (Latin-1): \<open>CHR 0xBA\<close> is the masculine ordinal sign, \<open>CHR 0xB0\<close> the degree sign,
  \<open>CHR 0xC2\<close> the capital A with circumflex. A missing value of a column (\<open>None\<close>,
  \<open>NaN\<close>, \<open>pd.NA\<close>) is \<^term>\<open>None\<close>.
\<close>

abbreviation ordm :: char where "ordm \<equiv> CHR 0xBA"
abbreviation degr :: char where "degr \<equiv> CHR 0xB0"
abbreviation A_circ :: char where "A_circ \<equiv> CHR 0xC2"

abbreviation PROPRIAS :: string where
  "PROPRIAS \<equiv> [CHR ''P'', CHR ''R'', CHR 0xD3, CHR ''P'', CHR ''R'', CHR ''I'', CHR ''A'', CHR ''S'']"
abbreviation FORNECEDORES :: string where "FORNECEDORES \<equiv> ''FORNECEDORES''"
abbreviation INICIO :: string where
  "INICIO \<equiv> [CHR ''I'', CHR ''N'', CHR 0xCD, CHR ''C'', CHR ''I'', CHR ''O'']"
abbreviation MEDIA :: string where
  "MEDIA \<equiv> [CHR ''M'', CHR 0xC9, CHR ''D'', CHR ''I'', CHR ''A'']"
abbreviation TARDIA :: string where "TARDIA \<equiv> ''TARDIA''"

text \<open>The codes of the cut stages: a digit, the ordinal sign, \<open>C\<close>.\<close>

abbreviation corte_1 :: string where "corte_1 \<equiv> [CHR ''1'', ordm, CHR ''C'']"
abbreviation corte_2 :: string where "corte_2 \<equiv> [CHR ''2'', ordm, CHR ''C'']"
abbreviation corte_3 :: string where "corte_3 \<equiv> [CHR ''3'', ordm, CHR ''C'']"
abbreviation corte_4 :: string where "corte_4 \<equiv> [CHR ''4'', ordm, CHR ''C'']"
abbreviation corte_5 :: string where "corte_5 \<equiv> [CHR ''5'', ordm, CHR ''C'', CHR ''+'']"

text \<open>\<open>str(n)\<close> and \<open>int(s)\<close> on decimal numerals.\<close>

definition digit_char :: "nat \<Rightarrow> char" where
  "digit_char n = ''0123456789'' ! n"

fun str_of_nat :: "nat \<Rightarrow> string" where
  "str_of_nat n =
     (if n < 10 then [digit_char n] else str_of_nat (n div 10) @ [digit_char (n mod 10)])"

declare str_of_nat.simps [simp del]

definition str_of_int :: "int \<Rightarrow> string" where
  "str_of_int i = (if i < 0 then CHR ''-'' # str_of_nat (nat (- i)) else str_of_nat (nat i))"

fun index_of :: "'a \<Rightarrow> 'a list \<Rightarrow> nat option" where
  "index_of x [] = None"
| "index_of x (y # ys) = (if x = y then Some 0 else map_option Suc (index_of x ys))"

definition digit_val :: "char \<Rightarrow> nat option" where
  "digit_val c = index_of c ''0123456789''"

fun nat_of_digits :: "nat \<Rightarrow> string \<Rightarrow> nat option" where
  "nat_of_digits acc [] = Some acc"
| "nat_of_digits acc (c # cs) =
     (case digit_val c of None \<Rightarrow> None | Some d \<Rightarrow> nat_of_digits (10 * acc + d) cs)"

definition nat_of_str :: "string \<Rightarrow> nat option" where
  "nat_of_str s = (if s = [] then None else nat_of_digits 0 s)"

text \<open>
  \<open>int(s)\<close>: \<^term>\<open>None\<close> is the \<open>ValueError\<close>. Python also accepts surrounding
  blanks, a plus sign and underscores; no string the code converts has them, every one
  is the \<open>str\<close> of an integer.
\<close>

definition int_of_str :: "string \<Rightarrow> int option" where
  "int_of_str s =
     (case s of
        [] \<Rightarrow> None
      | c # cs \<Rightarrow>
          if c = CHR ''-'' then map_option (\<lambda>n. - int n) (nat_of_str cs)
          else map_option int (nat_of_str s))"

text \<open>Element-wise column operations of pandas on one cell.\<close>

definition astype_str :: "string option \<Rightarrow> string" where
  \<comment> \<open>\<open>.astype(str)\<close> of a string column: a missing value prints as \<open><NA>\<close>\<close>
  "astype_str v = (case v of None \<Rightarrow> ''<NA>'' | Some s \<Rightarrow> s)"

definition isin :: "'a option \<Rightarrow> 'a list \<Rightarrow> bool" where
  \<comment> \<open>\<open>.isin(values)\<close>: a missing value is in no list of strings or numbers\<close>
  "isin v xs = (case v of None \<Rightarrow> False | Some s \<Rightarrow> s \<in> set xs)"

definition isna :: "'a option \<Rightarrow> bool" where
  "isna v = (v = None)"

definition str_get0 :: "string option \<Rightarrow> string option" where
  \<comment> \<open>\<open>.str[0]\<close>: missing on a missing value and on the empty string\<close>
  "str_get0 v = (case v of None \<Rightarrow> None | Some [] \<Rightarrow> None | Some (c # cs) \<Rightarrow> Some [c])"

definition str_last :: "nat \<Rightarrow> string option \<Rightarrow> string option" where
  \<comment> \<open>\<open>.str[-n:]\<close>\<close>
  "str_last n v = map_option (\<lambda>s. drop (length s - n) s) v"

definition str_len :: "string option \<Rightarrow> nat option" where
  "str_len v = map_option length v"

definition str_replace_char :: "char \<Rightarrow> string option \<Rightarrow> string option" where
  \<comment> \<open>\<open>.str.replace(c, '')\<close> for a pattern \<open>c\<close> of one character\<close>
  "str_replace_char c v = map_option (filter (\<lambda>x. x \<noteq> c)) v"

definition loc_set :: "('r \<Rightarrow> bool) \<Rightarrow> ('r \<Rightarrow> 'r) \<Rightarrow> 'r list \<Rightarrow> 'r list" where
  \<comment> \<open>\<open>df.loc[mask, column] = value\<close>; a missing entry of the mask counts as False\<close>
  "loc_set sel upd rs = map (\<lambda>r. if sel r then upd r else r) rs"

fun drop_duplicates_from :: "'a list \<Rightarrow> 'a list \<Rightarrow> 'a list" where
  "drop_duplicates_from seen [] = []"
| "drop_duplicates_from seen (x # xs) =
     (if x \<in> set seen then drop_duplicates_from seen xs
      else x # drop_duplicates_from (x # seen) xs)"

definition drop_duplicates :: "'a list \<Rightarrow> 'a list" where
  \<comment> \<open>\<open>.drop_duplicates()\<close> keeps the first occurrence of every value, in order\<close>
  "drop_duplicates xs = drop_duplicates_from [] xs"

definition nansum :: "real option list \<Rightarrow> real" where
  \<comment> \<open>\<open>.sum()\<close> of pandas skips missing values; floats are idealised as reals\<close>
  "nansum vs = sum_list (map (\<lambda>v. case v of None \<Rightarrow> 0 | Some x \<Rightarrow> x) vs)"

section \<open>Errors\<close>

datatype error =
    MissingColumn string
  | InvalidEstagioD "string option list" "string option list"
  | InvalidGridcode "int option list"
  | InvalidTpProp "string option list"
  | CannotConvertToInt string
  | EmptyArgmax
  | IndexOutOfBounds
  | OutOfRange
  | EmptyDissolve
  | SetItemFailed

definition and_then :: "error + 'a \<Rightarrow> ('a \<Rightarrow> error + 'b) \<Rightarrow> error + 'b" where
  "and_then m f = (case m of Inl e \<Rightarrow> Inl e | Inr x \<Rightarrow> f x)"

section \<open>The NDVI table (intersectNdviData.py)\<close>

text \<open>
  One row of the INTERSECT_NDVI table with the columns the classification reads and
  writes. \<open>DATA_IMG\<close> and \<open>DT_ULT_COR\<close> are the columns as the two date steps of
  \<open>__format_columns\<close> leave them: the timestamp that \<open>strftime('%Y-%m-%d')\<close> printed,
  or missing. \<open>ESTAGIO_ANO\<close> is the column \<open>ESTAGIO_yy\<close> of the season.
  \<open>GRIDCODE\<close> and \<open>IDADE_IMG\<close> are integer fields. The geometry column takes no part
  in any classification rule and is left out of the row.
\<close>

datatype month = Jan | Feb | Mar | Apr | May | Jun | Jul | Aug | Sep | Oct | Nov | Dec

fun month_number :: "month \<Rightarrow> int" where
  "month_number Jan = 1" | "month_number Feb = 2" | "month_number Mar = 3"
| "month_number Apr = 4" | "month_number May = 5" | "month_number Jun = 6"
| "month_number Jul = 7" | "month_number Aug = 8" | "month_number Sep = 9"
| "month_number Oct = 10" | "month_number Nov = 11" | "month_number Dec = 12"

record date =
  year :: int
  month :: month
  day :: nat

definition date_key :: "date \<Rightarrow> int \<times> int \<times> nat" where
  \<comment> \<open>the order of the printed dates \<open>YYYY-MM-DD\<close>\<close>
  "date_key d = (year d, month_number (month d), day d)"

record ndvi_row =
  FAZENDA :: "string option"
  VARIEDADE :: "string option"
  TP_PROP :: "string option"
  ESTAGIO :: "string option"
  ESTAGIO_ANO :: "string option"
  DESC_CANA :: "string option"
  GRIDCODE :: "int option"
  IDADE_IMG :: "int option"
  DATA_IMG :: "date option"
  DT_ULT_COR :: "date option"
  AREA_NDVI :: "real option"
  ESTAGIO_D :: "string option"
  JAN_COL :: "string option"
  MES_CORTE :: int

record ndvi_frame =
  columns :: "string list"
  rows :: "ndvi_row list"

definition add_column :: "string \<Rightarrow> string list \<Rightarrow> string list" where
  "add_column c cs = (if c \<in> set cs then cs else cs @ [c])"

subsection \<open>IntersectNdvi.__create_estagio_column and __check_columns\<close>

definition estagio_ano_column :: "int \<Rightarrow> string" where
  \<comment> \<open>\<open>f'ESTAGIO_{str(self.safra)[-2:]}'\<close>\<close>
  "estagio_ano_column safra =
     ''ESTAGIO_'' @ drop (length (str_of_int safra) - 2) (str_of_int safra)"

definition create_estagio_column :: "int \<Rightarrow> ndvi_frame \<Rightarrow> error + ndvi_frame" where
  "create_estagio_column safra fr =
     (let fr1 =
        (if estagio_ano_column safra \<in> set (columns fr)
         then fr\<lparr>columns := add_column ''ESTAGIO'' (columns fr),
                 rows := map (\<lambda>r. r\<lparr>ESTAGIO := ESTAGIO_ANO r\<rparr>) (rows fr)\<rparr>
         else fr)
      in if ''ESTAGIO'' \<notin> set (columns fr1) then Inl (MissingColumn ''ESTAGIO'')
         else
           (let rs2 = map (\<lambda>r. r\<lparr>ESTAGIO := str_replace_char A_circ (ESTAGIO r)\<rparr>) (rows fr1);
                rs3 = map (\<lambda>r. r\<lparr>ESTAGIO := str_replace_char CHR '' '' (ESTAGIO r)\<rparr>) rs2
            in Inr (fr1\<lparr>rows := rs3\<rparr>)))"

fun first_missing :: "string list \<Rightarrow> string list \<Rightarrow> string option" where
  "first_missing cs [] = None"
| "first_missing cs (c # rest) = (if c \<notin> set cs then Some c else first_missing cs rest)"

definition check_columns :: "ndvi_frame \<Rightarrow> error + ndvi_frame" where
  "check_columns fr =
     (case first_missing (columns fr) [''DESC_CANA'', ''GRIDCODE'', ''IDADE_IMG'', ''DATA_IMG''] of
        Some c \<Rightarrow> Inl (MissingColumn c)
      | None \<Rightarrow> Inr fr)"

subsection \<open>ImproveContratos\<close>

definition proprias_values :: "string list" where
  "proprias_values =
     [''1-SETOR A PROPRIA'', ''Pr'' @ [CHR 0xF3] @ ''prio'', ''AGRICOLA CASE'',
      ''2-PARCERIA'', ''PROPRIA'', ''SUBPARCERIA'', ''ARRENDAMENTO'',
      ''COMPRA DE CANA'', ''ARRE'']"

definition fornecedores_values :: "string list" where
  "fornecedores_values =
     [''Fornecedores'', ''3-FORNECEDOR'', ''6-FRANQUIA'', ''FORNEC.C'', ''FORNEC.S'', ''SPOT'']"

definition get_empty_rows_value :: "ndvi_row list \<Rightarrow> string" where
  "get_empty_rows_value rs =
     (case drop_duplicates (List.map_filter TP_PROP rs) of
        [v] \<Rightarrow> v
      | _ \<Rightarrow> ''ADEF'')"

definition format_contratos :: "ndvi_row list \<Rightarrow> ndvi_row list" where
  "format_contratos rs =
     (let rs1 = loc_set (\<lambda>r. astype_str (str_get0 (TP_PROP r)) = ''P'')
                  (\<lambda>r. r\<lparr>TP_PROP := Some PROPRIAS\<rparr>) rs;
          rs2 = loc_set (\<lambda>r. isin (TP_PROP r) proprias_values)
                  (\<lambda>r. r\<lparr>TP_PROP := Some PROPRIAS\<rparr>) rs1;
          rs3 = loc_set (\<lambda>r. astype_str (str_get0 (TP_PROP r)) = ''F'')
                  (\<lambda>r. r\<lparr>TP_PROP := Some FORNECEDORES\<rparr>) rs2;
          rs4 = loc_set (\<lambda>r. isin (TP_PROP r) fornecedores_values)
                  (\<lambda>r. r\<lparr>TP_PROP := Some FORNECEDORES\<rparr>) rs3;
          empty_rows_value = get_empty_rows_value rs4
      in loc_set (\<lambda>r. TP_PROP r = Some '''' \<or> isna (TP_PROP r) \<or> isna (TP_PROP r))
           (\<lambda>r. r\<lparr>TP_PROP := Some empty_rows_value\<rparr>) rs4)"

subsection \<open>ImproveEstagios\<close>

definition rules_1c :: "string list" where
  "rules_1c = [''9M'', ''10M'', ''11M'', ''12M'', ''13M'', ''14M'', ''15M'', ''16M'',
               ''17M'', ''18M'', ''2VER'']"

definition rules_2c :: "string list" where
  "rules_2c = [''2'' @ [ordm] @ ''C'', ''2'' @ [degr] @ ''C'', ''2'' @ [ordm], ''2'' @ [degr],
               ''2'' @ [ordm] @ '' CORTE'', ''2'' @ [degr] @ '' CORTE'']"

definition rules_3c :: "string list" where
  "rules_3c = [''3'' @ [ordm] @ ''C'', ''3'' @ [degr] @ ''C'', ''3'' @ [ordm], ''3'' @ [degr],
               ''3'' @ [ordm] @ '' CORTE'', ''3'' @ [degr] @ '' CORTE'']"

definition rules_4c :: "string list" where
  "rules_4c = [''4'' @ [ordm] @ ''C'', ''4'' @ [degr] @ ''C'', ''4'' @ [ordm], ''4'' @ [degr],
               ''4'' @ [ordm] @ '' CORTE'', ''4'' @ [degr] @ '' CORTE'']"

definition create_5c_list_values :: "string list" where
  \<comment> \<open>eight notations, each for the cut numbers \<open>range(5, 31)\<close>\<close>
  "create_5c_list_values =
     concat (map (\<lambda>suffix. map (\<lambda>number. str_of_nat number @ suffix) [5..<31])
       [[ordm] @ ''C'', [degr] @ ''C'', [ordm], [degr],
        [ordm] @ ''CORTE'', [degr] @ ''CORTE'', [ordm] @ ''C+'', [degr] @ ''C+''])"

definition rules_5c :: "string list" where
  "rules_5c = create_5c_list_values"

definition rules_plantio :: "string list" where
  "rules_plantio = [''12MF'', ''15MF'', ''18MF'', ''9MF'']"

definition rules_adef :: "string list" where
  "rules_adef = ['''', ''EXP'', ''POU'', ''POUSIO'', ''ADEF'']"

definition rules_bis :: "string list" where
  "rules_bis = [''BIS'', ''BISADA'', ''BISANOEMEIO'', ''SOQUEIRA'', ''SOQ'']"

definition classify_adef_ref_plantio :: "ndvi_row list \<Rightarrow> ndvi_row list" where
  "classify_adef_ref_plantio rs =
     (let rs1 = loc_set (\<lambda>r. isin (ESTAGIO r) rules_adef \<or> isna (ESTAGIO r) \<or> isna (ESTAGIO r))
                  (\<lambda>r. r\<lparr>ESTAGIO_D := Some ''ADEF''\<rparr>) rs;
          rs2 = loc_set (\<lambda>r. isin (ESTAGIO r) rules_plantio)
                  (\<lambda>r. r\<lparr>ESTAGIO_D := Some ''PLANTIO''\<rparr>) rs1
      in loc_set (\<lambda>r. ESTAGIO r = Some ''REF'') (\<lambda>r. r\<lparr>ESTAGIO_D := Some ''REF''\<rparr>) rs2)"

definition classify_bis :: "ndvi_row list \<Rightarrow> ndvi_row list" where
  "classify_bis rs =
     loc_set (\<lambda>r. astype_str (str_last 1 (ESTAGIO r)) = ''B''
                 \<or> astype_str (str_last 3 (ESTAGIO r)) = ''BIS''
                 \<or> isin (ESTAGIO r) rules_bis)
       (\<lambda>r. r\<lparr>ESTAGIO_D := Some ''BIS''\<rparr>) rs"

definition classify_cortes :: "ndvi_row list \<Rightarrow> ndvi_row list" where
  "classify_cortes rs =
     (let rs1 = loc_set (\<lambda>r. isin (ESTAGIO r) rules_1c)
                  (\<lambda>r. r\<lparr>ESTAGIO_D := Some corte_1\<rparr>) rs;
          rs2 = loc_set (\<lambda>r. isin (ESTAGIO r) rules_2c)
                  (\<lambda>r. r\<lparr>ESTAGIO_D := Some corte_2\<rparr>) rs1;
          rs3 = loc_set (\<lambda>r. isin (ESTAGIO r) rules_3c)
                  (\<lambda>r. r\<lparr>ESTAGIO_D := Some corte_3\<rparr>) rs2;
          rs4 = loc_set (\<lambda>r. isin (ESTAGIO r) rules_4c)
                  (\<lambda>r. r\<lparr>ESTAGIO_D := Some corte_4\<rparr>) rs3
      in loc_set (\<lambda>r. isin (ESTAGIO r) rules_5c \<or> astype_str (str_get0 (ESTAGIO r)) = ''>'')
           (\<lambda>r. r\<lparr>ESTAGIO_D := Some corte_5\<rparr>) rs4)"

definition format_estagios :: "ndvi_row list \<Rightarrow> ndvi_row list" where
  "format_estagios rs =
     classify_cortes (classify_bis (classify_adef_ref_plantio
       (map (\<lambda>r. r\<lparr>ESTAGIO_D := Some ''''\<rparr>) rs)))"

subsection \<open>NdviDataValidation\<close>

definition gridcode_values :: "int list" where
  "gridcode_values = [1, 2, 3, 4, 5, 6]"

definition contratos_values :: "string list" where
  "contratos_values = [PROPRIAS, FORNECEDORES, ''ADEF'']"

definition estagios_values :: "string list" where
  "estagios_values =
     [corte_1, corte_2, corte_3, corte_4, corte_5, ''BIS'', ''ADEF'', ''REF'', ''PLANTIO'']"

definition estagios_validation :: "ndvi_row list \<Rightarrow> error + unit" where
  "estagios_validation rs =
     (let list_estagios = drop_duplicates (map ESTAGIO_D rs);
          wrong_rows = filter (\<lambda>r. \<not> isin (ESTAGIO_D r) estagios_values) rs;
          wrong_values = drop_duplicates (map ESTAGIO_D wrong_rows)
      in if wrong_rows \<noteq> [] then Inl (InvalidEstagioD wrong_values list_estagios)
         else Inr ())"

definition gridcode_validation :: "ndvi_row list \<Rightarrow> error + unit" where
  "gridcode_validation rs =
     (let wrong_rows = filter (\<lambda>r. \<not> isin (GRIDCODE r) gridcode_values) rs;
          wrong_values = drop_duplicates (map GRIDCODE wrong_rows)
      in if wrong_rows \<noteq> [] then Inl (InvalidGridcode wrong_values) else Inr ())"

definition contratos_validation :: "ndvi_row list \<Rightarrow> error + unit" where
  "contratos_validation rs =
     (let wrong_rows = filter (\<lambda>r. \<not> isin (TP_PROP r) contratos_values) rs;
          wrong_values = drop_duplicates (map TP_PROP wrong_rows)
      in if wrong_rows \<noteq> [] then Inl (InvalidTpProp wrong_values) else Inr ())"

definition NdviDataValidation :: "ndvi_row list \<Rightarrow> error + unit" where
  "NdviDataValidation rs =
     and_then (estagios_validation rs) (\<lambda>_.
     and_then (gridcode_validation rs) (\<lambda>_.
     contratos_validation rs))"

definition validated :: "ndvi_frame \<Rightarrow> error + ndvi_frame" where
  \<comment> \<open>\<open>NdviDataValidation(ndvi_data_classified); return ndvi_data_classified\<close>\<close>
  "validated fr = and_then (NdviDataValidation (rows fr)) (\<lambda>_. Inr fr)"

subsection \<open>JanelaDeColheita\<close>

definition jan_col_empty :: "ndvi_row \<Rightarrow> bool" where
  \<comment> \<open>\<open>(JAN_COL == '') | JAN_COL.isnull() | (JAN_COL.str.len() == 0)\<close>\<close>
  "jan_col_empty r =
     (JAN_COL r = Some '''' \<or> isna (JAN_COL r) \<or> str_len (JAN_COL r) = Some 0)"

definition classificar_estagio :: "ndvi_row list \<Rightarrow> ndvi_row list" where
  "classificar_estagio rs =
     (let rs0 = map (\<lambda>r. r\<lparr>JAN_COL := Some ''''\<rparr>) rs;
          rs1 = loc_set (\<lambda>r. ESTAGIO r = Some ''12M'') (\<lambda>r. r\<lparr>JAN_COL := Some TARDIA\<rparr>) rs0;
          rs2 = loc_set (\<lambda>r. ESTAGIO r = Some ''15M'') (\<lambda>r. r\<lparr>JAN_COL := Some MEDIA\<rparr>) rs1;
          rs3 = loc_set (\<lambda>r. ESTAGIO r = Some ''18M'') (\<lambda>r. r\<lparr>JAN_COL := Some INICIO\<rparr>) rs2
      in loc_set (\<lambda>r. ESTAGIO r = Some ''2VER'') (\<lambda>r. r\<lparr>JAN_COL := Some INICIO\<rparr>) rs3)"

definition classificar_cana_bis :: "ndvi_row list \<Rightarrow> ndvi_row list" where
  "classificar_cana_bis rs =
     loc_set (\<lambda>r. DESC_CANA r = Some ''BIS'' \<or> DESC_CANA r = Some ''BISADA'')
       (\<lambda>r. r\<lparr>JAN_COL := Some INICIO\<rparr>) rs"

definition create_mes_corte_column :: "ndvi_row list \<Rightarrow> ndvi_row list" where
  "create_mes_corte_column rs =
     (let rs1 = map (\<lambda>r. r\<lparr>MES_CORTE :=
                   (case DT_ULT_COR r of None \<Rightarrow> 0 | Some d \<Rightarrow> month_number (month d))\<rparr>) rs
      in loc_set (\<lambda>r. case str_len (JAN_COL r) of None \<Rightarrow> False | Some n \<Rightarrow> 0 < n)
           (\<lambda>r. r\<lparr>MES_CORTE := 0\<rparr>) rs1)"

definition classificar_mes_corte :: "ndvi_row list \<Rightarrow> ndvi_row list" where
  "classificar_mes_corte rs =
     (let rs0 = create_mes_corte_column rs;
          rs1 = loc_set (\<lambda>r. jan_col_empty r \<and> MES_CORTE r \<in> set [1, 2, 3, 4, 5, 6])
                  (\<lambda>r. r\<lparr>JAN_COL := Some INICIO\<rparr>) rs0;
          rs2 = loc_set (\<lambda>r. jan_col_empty r \<and> MES_CORTE r \<in> set [7, 8])
                  (\<lambda>r. r\<lparr>JAN_COL := Some MEDIA\<rparr>) rs1
      in loc_set (\<lambda>r. jan_col_empty r \<and> MES_CORTE r \<in> set [9, 10, 11, 12])
           (\<lambda>r. r\<lparr>JAN_COL := Some TARDIA\<rparr>) rs2)"

definition int_gt :: "int option \<Rightarrow> int \<Rightarrow> bool" where
  "int_gt v n = (case v of None \<Rightarrow> False | Some x \<Rightarrow> n < x)"

definition int_le :: "int option \<Rightarrow> int \<Rightarrow> bool" where
  "int_le v n = (case v of None \<Rightarrow> False | Some x \<Rightarrow> x \<le> n)"

definition classificar_idade_img :: "ndvi_row list \<Rightarrow> error + ndvi_row list" where
  \<comment> \<open>\<open>IDADE_IMG.astype(int)\<close> raises on a missing value\<close>
  "classificar_idade_img rs =
     (if list_ex (\<lambda>r. isna (IDADE_IMG r)) rs then Inl (CannotConvertToInt ''IDADE_IMG'')
      else
        (let rs1 = loc_set (\<lambda>r. jan_col_empty r \<and> MES_CORTE r = 0 \<and> int_gt (IDADE_IMG r) 10)
                     (\<lambda>r. r\<lparr>JAN_COL := Some INICIO\<rparr>) rs;
             rs2 = loc_set (\<lambda>r. jan_col_empty r \<and> MES_CORTE r = 0 \<and> isin (IDADE_IMG r) [8, 9, 10])
                     (\<lambda>r. r\<lparr>JAN_COL := Some MEDIA\<rparr>) rs1
         in Inr (loc_set (\<lambda>r. jan_col_empty r \<and> MES_CORTE r = 0 \<and> int_le (IDADE_IMG r) 7)
                   (\<lambda>r. r\<lparr>JAN_COL := Some TARDIA\<rparr>) rs2)))"

definition format_gridcode :: "ndvi_row list \<Rightarrow> error + ndvi_row list" where
  \<comment> \<open>\<open>.astype(int)\<close> (raises on a missing value), \<open>.astype(str)\<close>, \<open>.astype(np.int64)\<close>\<close>
  "format_gridcode rs =
     (if list_ex (\<lambda>r. isna (GRIDCODE r)) rs then Inl (CannotConvertToInt ''GRIDCODE'')
      else Inr (map (\<lambda>r. r\<lparr>GRIDCODE :=
                  Option.bind (map_option str_of_int (GRIDCODE r)) int_of_str\<rparr>) rs))"

definition classify_janela_colheita :: "ndvi_frame \<Rightarrow> error + ndvi_frame" where
  "classify_janela_colheita fr =
     and_then
       (if ''JAN_COL'' \<in> set (columns fr) then Inr fr
        else
          and_then
            (classificar_idade_img
              (classificar_mes_corte (classificar_cana_bis (classificar_estagio (rows fr)))))
            (\<lambda>rs. Inr (fr\<lparr>columns := add_column ''MES_CORTE'' (columns fr @ [''JAN_COL'']),
                           rows := rs\<rparr>)))
       (\<lambda>fr1. and_then (format_gridcode (rows fr1)) (\<lambda>rs. Inr (fr1\<lparr>rows := rs\<rparr>)))"

subsection \<open>IntersectNdvi.__classify_date_image and ndvi_data\<close>

definition area_of_date :: "ndvi_row list \<Rightarrow> date \<Rightarrow> real" where
  "area_of_date rs d = nansum (map AREA_NDVI (filter (\<lambda>r. DATA_IMG r = Some d) rs))"

definition grouped_area :: "ndvi_row list \<Rightarrow> (date \<times> real) list" where
  \<comment> \<open>\<open>groupby('DATA_IMG')['AREA_NDVI'].sum()\<close>: rows with a missing date are left out,
      the dates come sorted\<close>
  "grouped_area rs =
     map (\<lambda>d. (d, area_of_date rs d))
       (sort_key date_key (drop_duplicates (List.map_filter DATA_IMG rs)))"

fun argmax_from :: "'k \<times> real \<Rightarrow> ('k \<times> real) list \<Rightarrow> 'k" where
  "argmax_from (k, v) [] = k"
| "argmax_from (k, v) ((k', v') # xs) =
     (if v < v' then argmax_from (k', v') xs else argmax_from (k, v) xs)"

definition idxmax :: "('k \<times> real) list \<Rightarrow> error + 'k" where
  \<comment> \<open>the label of the first maximum; \<open>ValueError\<close> on an empty series\<close>
  "idxmax xs = (case xs of [] \<Rightarrow> Inl EmptyArgmax | x # rest \<Rightarrow> Inr (argmax_from x rest))"

definition classify_date_image :: "ndvi_row list \<Rightarrow> error + ndvi_row list" where
  "classify_date_image rs =
     and_then (idxmax (grouped_area rs))
       (\<lambda>date_with_highest_sum_area.
          Inr (map (\<lambda>r. r\<lparr>DATA_IMG := Some date_with_highest_sum_area\<rparr>) rs))"

text \<open>
  \<open>ndvi_data\<close>, on a table whose column names are upper case and whose two date columns
  are formatted (those steps of \<open>__format_columns\<close> touch no column of the rules below).
\<close>

definition ndvi_data :: "int \<Rightarrow> ndvi_frame \<Rightarrow> error + ndvi_frame" where
  "ndvi_data safra fr =
     and_then (create_estagio_column safra fr) (\<lambda>fr1.
     and_then (check_columns fr1) (\<lambda>fr2.
       (let improved_contracts = fr2\<lparr>rows := format_contratos (rows fr2)\<rparr>;
            improved_estagios =
              improved_contracts\<lparr>columns := add_column ''ESTAGIO_D'' (columns improved_contracts),
                                  rows := format_estagios (rows improved_contracts)\<rparr>
        in and_then (classify_janela_colheita improved_estagios) (\<lambda>classified.
           and_then (classify_date_image (rows classified)) (\<lambda>rs.
           validated (classified\<lparr>rows := rs\<rparr>))))))"

section \<open>The summary (insertNdviDataIntoDatabase.py)\<close>

text \<open>
  One row of the table that \<open>IntersectNdviSummarized\<close> works on, under the lower-case
  column names. The \<open>safra\<close> column changes its type on the way (the text of the season's
  year in phase 1, an integer after \<open>astype(int)\<close>), so the row is polymorphic in it.
  A column that the table does not have yet, or no longer has, is missing in every row.
\<close>

record 's agg_row =
  chave :: "string option"
  safra :: "'s option"
  fazenda :: "string option"
  gridcode :: "int option"
  estagio :: "string option"
  tp_prop :: "string option"
  variedade :: "string option"
  jan_col :: "string option"
  janela :: "string option"
  area_ndvi :: "real option"
  data_img :: "date option"

definition astype_str_int :: "int option \<Rightarrow> string" where
  \<comment> \<open>\<open>.astype(str)\<close> of an integer column\<close>
  "astype_str_int v = (case v of None \<Rightarrow> ''<NA>'' | Some i \<Rightarrow> str_of_int i)"

definition groupby_on ::
  "('k \<Rightarrow> 'o::linorder) \<Rightarrow> ('r \<Rightarrow> 'k option) \<Rightarrow> 'r list \<Rightarrow> ('k \<times> 'r list) list" where
  \<comment> \<open>\<open>df.groupby(keys)\<close>: the rows whose key has a missing part belong to no group
      (\<open>dropna=True\<close>); the groups come in the order of their keys (\<open>sort=True\<close>)\<close>
  "groupby_on ord key rs =
     map (\<lambda>k. (k, filter (\<lambda>r. key r = Some k) rs))
       (sort_key ord (drop_duplicates (List.map_filter key rs)))"

fun first_valid :: "'a option list \<Rightarrow> 'a option" where
  \<comment> \<open>the aggregation \<open>first\<close>: the first value that is not missing\<close>
  "first_valid [] = None"
| "first_valid (None # vs) = first_valid vs"
| "first_valid (Some v # vs) = Some v"

definition summarized_format_columns ::
  "int \<Rightarrow> string \<Rightarrow> ndvi_row list \<Rightarrow> string agg_row list" where
  \<comment> \<open>\<open>IntersectNdviSummarized.__format_columns\<close>: \<open>ESTAGIO\<close> takes the derived stage\<close>
  "summarized_format_columns self_safra self_janela rs =
     map (\<lambda>r. \<lparr>chave = None, safra = Some (str_of_int self_safra), fazenda = FAZENDA r,
                gridcode = GRIDCODE r, estagio = ESTAGIO_D r, tp_prop = TP_PROP r,
                variedade = VARIEDADE r, jan_col = JAN_COL r, janela = Some self_janela,
                area_ndvi = AREA_NDVI r, data_img = DATA_IMG r\<rparr>) rs"

definition create_chave_column :: "string agg_row list \<Rightarrow> string agg_row list" where
  "create_chave_column rs =
     map (\<lambda>r. r\<lparr>chave := Some
            (astype_str (fazenda r) @ ''_'' @
             astype_str_int (gridcode r) @ ''_'' @
             astype_str (estagio r) @ ''_'' @
             astype_str (tp_prop r) @ ''_'' @
             astype_str (variedade r) @ ''_'' @
             astype_str (jan_col r) @ ''_'' @
             astype_str (safra r) @ ''_'' @
             astype_str (janela r))\<rparr>) rs"

definition groupby_intersect_ndvi_data_by_chave ::
  "string agg_row list \<Rightarrow> string agg_row list" where
  "groupby_intersect_ndvi_data_by_chave rs =
     map (\<lambda>(k, g).
            \<lparr>chave = Some k,
             safra = first_valid (map safra g),
             fazenda = first_valid (map fazenda g),
             gridcode = first_valid (map gridcode g),
             estagio = first_valid (map estagio g),
             tp_prop = first_valid (map tp_prop g),
             variedade = first_valid (map variedade g),
             jan_col = first_valid (map jan_col g),
             janela = first_valid (map janela g),
             area_ndvi = Some (nansum (map area_ndvi g)),
             data_img = first_valid (map data_img g)\<rparr>)
       (groupby_on id chave rs)"

definition with_safra :: "string agg_row \<Rightarrow> int option \<Rightarrow> int agg_row" where
  \<comment> \<open>the row with its \<open>safra\<close> cell replaced by a cell of the integer column\<close>
  "with_safra r n =
     \<lparr>chave = chave r, safra = n, fazenda = fazenda r, gridcode = gridcode r,
      estagio = estagio r, tp_prop = tp_prop r, variedade = variedade r,
      jan_col = jan_col r, janela = janela r, area_ndvi = area_ndvi r,
      data_img = data_img r\<rparr>"

definition astype_int_safra :: "string agg_row list \<Rightarrow> error + int agg_row list" where
  \<comment> \<open>\<open>safra.astype(int)\<close>: raises on a missing value and on a text that is no integer\<close>
  "astype_int_safra rs =
     (if list_ex (\<lambda>r. Option.bind (safra r) int_of_str = None) rs
      then Inl (CannotConvertToInt ''safra'')
      else Inr (map (\<lambda>r. with_safra r (Option.bind (safra r) int_of_str)) rs))"

definition create_chave_final_column ::
  "string \<Rightarrow> string agg_row list \<Rightarrow> error + int agg_row list" where
  "create_chave_final_column self_client_id rs =
     and_then (astype_int_safra rs) (\<lambda>rs1.
       Inr (map (\<lambda>r. r\<lparr>chave := Some
              (self_client_id @ ''_'' @
               astype_str_int (safra r) @ ''_'' @
               astype_str (janela r) @ ''_'' @
               astype_str (estagio r) @ ''_'' @
               astype_str (jan_col r) @ ''_'' @
               astype_str_int (gridcode r))\<rparr>) rs1))"

type_synonym final_key =
  "string \<times> int \<times> string \<times> string \<times> string \<times> int \<times> string \<times> date"

definition list_columns :: "int agg_row \<Rightarrow> final_key option" where
  \<comment> \<open>the values of \<open>['chave', 'safra', 'janela', 'estagio', 'jan_col', 'gridcode',
      'tp_prop', 'data_img']\<close>, missing as soon as one of them is\<close>
  "list_columns r =
     (case (chave r, safra r, janela r, estagio r, jan_col r, gridcode r, tp_prop r, data_img r) of
        (Some c, Some s, Some j, Some e, Some jc, Some g, Some t, Some d) \<Rightarrow>
          Some (c, s, j, e, jc, g, t, d)
      | _ \<Rightarrow> None)"

definition final_key_order ::
  "final_key \<Rightarrow> string \<times> int \<times> string \<times> string \<times> string \<times> int \<times> string \<times> int \<times> int \<times> nat" where
  "final_key_order k = (case k of (c, s, j, e, jc, g, t, d) \<Rightarrow> (c, s, j, e, jc, g, t, date_key d))"

definition groupby_data_final :: "string \<Rightarrow> string agg_row list \<Rightarrow> error + int agg_row list" where
  \<comment> \<open>the result has the eight grouping columns and \<open>area_ndvi\<close>\<close>
  "groupby_data_final self_client_id rs =
     and_then (create_chave_final_column self_client_id rs) (\<lambda>rs1.
       Inr (map (\<lambda>(k, g).
                   (case k of (c, s, j, e, jc, gc, t, d) \<Rightarrow>
                      \<lparr>chave = Some c, safra = Some s, fazenda = None, gridcode = Some gc,
                       estagio = Some e, tp_prop = Some t, variedade = None, jan_col = Some jc,
                       janela = Some j, area_ndvi = Some (nansum (map area_ndvi g)),
                       data_img = Some d\<rparr>))
              (groupby_on final_key_order list_columns rs1)))"

definition ndvi_data_summarized ::
  "int \<Rightarrow> string \<Rightarrow> int \<Rightarrow> ndvi_row list \<Rightarrow> error + int agg_row list" where
  \<comment> \<open>\<open>self.client_id = str(client_id)\<close>\<close>
  "ndvi_data_summarized self_safra self_janela client rs =
     (let rs0 = summarized_format_columns self_safra self_janela rs;
          rs1 = create_chave_column rs0;
          rs2 = groupby_intersect_ndvi_data_by_chave rs1
      in groupby_data_final (str_of_int client) rs2)"

section \<open>The loader (InsertIntersectNdviIntoDatabase and DataBase)\<close>

text \<open>
  A row of the warehouse table \<open>powerbi.intersect_ndvi\<close>: a row of the summary with the
  client's id and name. The table is the list of its rows. The outcome of a statement
  sent to the database is a parameter: \<open>True\<close> when the database executes it, \<open>False\<close>
  when it raises (\<open>delete_rows\<close> rolls back, \<open>insert_dataframe_into_postgres\<close> prints the
  error; both leave the table as it was and return).
\<close>

record 's warehouse_row = "'s agg_row" +
  client_id :: "int option"
  client_name :: "string option"

type_synonym warehouse = "int warehouse_row list"

definition get_client_data_interest :: "(int \<times> string) list \<Rightarrow> int \<Rightarrow> string option" where
  \<comment> \<open>the column \<open>cliente\<close> of the first row of \<open>public.clientes\<close> with this id\<close>
  "get_client_data_interest clients_data client =
     (case filter (\<lambda>c. fst c = client) clients_data of
        [] \<Rightarrow> None
      | c # _ \<Rightarrow> Some (snd c))"

definition delete_rows ::
  "bool \<Rightarrow> (int warehouse_row \<Rightarrow> bool) \<Rightarrow> warehouse \<Rightarrow> warehouse" where
  "delete_rows executes where_clause table =
     (if executes then filter (\<lambda>r. \<not> where_clause r) table else table)"

definition insert_dataframe_into_postgres ::
  "bool \<Rightarrow> int warehouse_row list \<Rightarrow> warehouse \<Rightarrow> warehouse" where
  "insert_dataframe_into_postgres executes dataframe table =
     (if executes then table @ dataframe else table)"

definition delete_old_rows_from_database ::
  "bool \<Rightarrow> int \<Rightarrow> string \<Rightarrow> int \<Rightarrow> warehouse \<Rightarrow> warehouse" where
  \<comment> \<open>\<open>DELETE ... WHERE client_id = {client_id} AND safra = {safra} AND janela = '{janela}'\<close>;
      a missing value equals nothing\<close>
  "delete_old_rows_from_database executes client window season table =
     delete_rows executes
       (\<lambda>r. client_id r = Some client \<and> safra r = Some season \<and> janela r = Some window)
       table"

definition with_client :: "int \<Rightarrow> string option \<Rightarrow> int agg_row \<Rightarrow> int warehouse_row" where
  \<comment> \<open>\<open>client_ndvi_data['client_id'] = client_id\<close> and the same for \<open>client_name\<close>\<close>
  "with_client client name r =
     \<lparr>chave = chave r, safra = safra r, fazenda = fazenda r, gridcode = gridcode r,
      estagio = estagio r, tp_prop = tp_prop r, variedade = variedade r,
      jan_col = jan_col r, janela = janela r, area_ndvi = area_ndvi r,
      data_img = data_img r, client_id = Some client, client_name = name\<rparr>"

text \<open>
  \<open>pd.to_datetime(..., dayfirst=True)\<close> reads the printed dates back; which timestamp
  pandas makes of a text is the parameter \<open>to_datetime\<close>.
\<close>

definition insert_ndvi_data_into_database ::
  "bool \<Rightarrow> bool \<Rightarrow> (date \<Rightarrow> date) \<Rightarrow> (int \<times> string) list \<Rightarrow>
     int \<Rightarrow> string \<Rightarrow> int agg_row list \<Rightarrow> int \<Rightarrow> warehouse \<Rightarrow> error + warehouse" where
  "insert_ndvi_data_into_database delete_executes insert_executes to_datetime clients_data
       client window client_ndvi_data season table =
     (let client_complete_name = get_client_data_interest clients_data client;
          stamped = map (with_client client client_complete_name) client_ndvi_data;
          dated = map (\<lambda>r. r\<lparr>data_img := map_option to_datetime (data_img r)\<rparr>) stamped
      in case dated of
           [] \<Rightarrow> Inl IndexOutOfBounds
         | first # _ \<Rightarrow>
             Inr (insert_dataframe_into_postgres insert_executes dated
                   (delete_old_rows_from_database delete_executes client window season table)))"

definition main_unit ::
  "bool \<Rightarrow> bool \<Rightarrow> (date \<Rightarrow> date) \<Rightarrow> (int \<times> string) list \<Rightarrow>
     int \<Rightarrow> int \<Rightarrow> string \<Rightarrow> ndvi_row list \<Rightarrow> warehouse \<Rightarrow> error + warehouse" where
  \<comment> \<open>the body of the loops of \<open>main\<close> for one client, season and window;
      \<open>intersect_ndvi\<close> is the classified table of the unit, empty when there is no shapefile\<close>
  "main_unit delete_executes insert_executes to_datetime clients_data
       client season window intersect_ndvi table =
     and_then
       (if intersect_ndvi = [] then Inr []
        else ndvi_data_summarized season window client intersect_ndvi)
       (\<lambda>client_ndvi_data.
          if client_ndvi_data \<noteq> []
          then insert_ndvi_data_into_database delete_executes insert_executes to_datetime
                 clients_data client window client_ndvi_data season table
          else Inr table)"

section \<open>Geometries (gisFunctions.py)\<close>

text \<open>
  The geometries belong to shapely, the coordinate transforms to pyproj and the zone of
  a point to the package utm; none of them is code of this repository. A geometry is a
  value of a type \<open>'g\<close>, and the operations the code calls are the fields of one record,
  a parameter of every function below. A failing call returns \<open>None\<close>. Coordinates and
  areas are real numbers.
\<close>

datatype geom_type =
    Point | LineString | LinearRing | Polygon
  | MultiPoint | MultiLineString | MultiPolygon | GeometryCollection

record 'g library =
  geom_type_of :: "'g \<Rightarrow> geom_type"
  is_empty :: "'g \<Rightarrow> bool"
  is_valid :: "'g \<Rightarrow> bool"
  make_valid :: "'g \<Rightarrow> 'g"
  buffer :: "real \<Rightarrow> 'g \<Rightarrow> 'g"
  centroid :: "'g \<Rightarrow> real \<times> real"
  area :: "'g \<Rightarrow> real"
  geoms :: "'g \<Rightarrow> 'g list"
  explode :: "'g \<Rightarrow> 'g list"
  unary_union :: "'g list \<Rightarrow> 'g"
  wkt_loads_str :: "'g \<Rightarrow> 'g"
  transform :: "nat \<Rightarrow> nat \<Rightarrow> 'g \<Rightarrow> 'g option"
  from_latlon :: "real \<Rightarrow> real \<Rightarrow> (real \<times> real \<times> nat \<times> char) option"
  setitem_raises :: "'g \<Rightarrow> bool"

text \<open>
  \<open>centroid\<close> gives \<open>(x, y)\<close>; \<open>wkt_loads_str g\<close> is \<open>loads(str(g))\<close>;
  \<open>transform source target g\<close> moves a geometry between two EPSG codes;
  \<open>from_latlon latitude longitude\<close> gives easting, northing, zone number and zone
  letter, or fails outside the range of UTM; \<open>setitem_raises g\<close> tells whether
  assigning \<open>g\<close> to cells of the geometry column raises (the repair loop catches
  that, the loop over the geometry collections does not).

  A feature is a row of a GeoDataFrame: its index label, its geometry and its
  attributes. Labels may repeat. The collection carries one CRS for all its rows.
\<close>

datatype cell = Number real | Text string

record 'g feature =
  label :: int
  geometry :: 'g
  attrs :: "string \<Rightarrow> cell option"

record 'g gdf =
  crs :: "nat option"
  feats :: "'g feature list"

datatype target = UTM | EPSG nat

definition loc_set_geometry :: "int \<Rightarrow> ('g \<Rightarrow> 'g) \<Rightarrow> 'g feature list \<Rightarrow> 'g feature list" where
  \<comment> \<open>\<open>gdf.loc[[index], 'geometry'] = ...\<close>: every row that carries the label\<close>
  "loc_set_geometry index upd fs =
     map (\<lambda>f. if label f = index then f\<lparr>geometry := upd (geometry f)\<rparr> else f) fs"

subsection \<open>ReprojectGeometries\<close>

definition to_crs :: "'g library \<Rightarrow> nat \<Rightarrow> 'g gdf \<Rightarrow> 'g gdf option" where
  \<comment> \<open>raises on a collection without CRS and when a geometry cannot be transformed\<close>
  "to_crs lib epsg fr =
     (case crs fr of
        None \<Rightarrow> None
      | Some source \<Rightarrow>
          (case those (map (\<lambda>f. transform lib source epsg (geometry f)) (feats fr)) of
             None \<Rightarrow> None
           | Some gs \<Rightarrow>
               Some (fr\<lparr>crs := Some epsg,
                        feats := map2 (\<lambda>f g. f\<lparr>geometry := g\<rparr>) (feats fr) gs\<rparr>)))"

definition reproject_epsg :: "'g library \<Rightarrow> nat \<Rightarrow> 'g gdf \<Rightarrow> 'g gdf" where
  \<comment> \<open>\<open>try: to_crs(epsg) except: crs = f"EPSG:{epsg}"\<close>\<close>
  "reproject_epsg lib epsg fr =
     (case to_crs lib epsg fr of Some fr' \<Rightarrow> fr' | None \<Rightarrow> fr\<lparr>crs := Some epsg\<rparr>)"

fun reproject_to_utm_rows :: "'g library \<Rightarrow> 'g feature list \<Rightarrow> 'g gdf \<Rightarrow> error + 'g gdf" where
  \<comment> \<open>the loop over \<open>iterrows()\<close> of the collection as it was given; \<open>self.geodataframe\<close>
      is the third argument\<close>
  "reproject_to_utm_rows lib [] fr = Inr fr"
| "reproject_to_utm_rows lib (row # rest) fr =
     (let c = centroid lib (geometry row)
      in case from_latlon lib (snd c) (fst c) of
           None \<Rightarrow> Inl OutOfRange
         | Some (utm_x, utm_y, band, zone) \<Rightarrow>
             if snd c < 0
             then reproject_to_utm_rows lib rest (reproject_epsg lib (32700 + band) fr)
             else reproject_to_utm_rows lib rest fr)"

definition reproject_to_utm :: "'g library \<Rightarrow> 'g gdf \<Rightarrow> error + 'g gdf" where
  "reproject_to_utm lib fr = reproject_to_utm_rows lib (feats fr) fr"

definition reproject :: "'g library \<Rightarrow> target \<Rightarrow> 'g gdf \<Rightarrow> error + 'g gdf" where
  "reproject lib to fr =
     (case to of UTM \<Rightarrow> reproject_to_utm lib fr | EPSG n \<Rightarrow> Inr (reproject_epsg lib n fr))"

subsection \<open>ImproveGeometryCollections and MakeValidGeometries\<close>

definition geometry_collection_to_multipolygon :: "'g library \<Rightarrow> 'g \<Rightarrow> error + 'g" where
  \<comment> \<open>the parts that are no LineString, exploded, dissolved into one geometry, read back
      from its text and buffered; dissolving an empty table raises\<close>
  "geometry_collection_to_multipolygon lib row_geometry =
     (let new_gdf = concat (map (explode lib)
                      (filter (\<lambda>g. geom_type_of lib g \<noteq> LineString) (geoms lib row_geometry)))
      in if new_gdf = [] then Inl EmptyDissolve
         else Inr (buffer lib 0 (wkt_loads_str lib (unary_union lib new_gdf))))"

definition geoM_type_list :: "geom_type list" where
  "geoM_type_list = [Polygon, MultiPolygon, GeometryCollection]"

definition MakeValidGeometries :: "'g library \<Rightarrow> 'g gdf \<Rightarrow> 'g gdf" where
  \<comment> \<open>the constructor: the rows that are not empty and of a listed type\<close>
  "MakeValidGeometries lib fr =
     fr\<lparr>feats := filter (\<lambda>f. \<not> is_empty lib (geometry f)
                               \<and> geom_type_of lib (geometry f) \<in> set geoM_type_list) (feats fr)\<rparr>"

fun improve_geometry_collection_rows ::
  "'g library \<Rightarrow> 'g feature list \<Rightarrow> 'g feature list \<Rightarrow> error + 'g feature list" where
  "improve_geometry_collection_rows lib [] fs = Inr fs"
| "improve_geometry_collection_rows lib (row # rest) fs =
     (if geom_type_of lib (geometry row) = GeometryCollection
      then (case geometry_collection_to_multipolygon lib (geometry row) of
              Inl e \<Rightarrow> Inl e
            | Inr new_geometry \<Rightarrow>
                if setitem_raises lib new_geometry then Inl SetItemFailed
                else improve_geometry_collection_rows lib rest
                       (loc_set_geometry (label row) (\<lambda>_. new_geometry) fs))
      else improve_geometry_collection_rows lib rest fs)"

definition improve_geometry_collection :: "'g library \<Rightarrow> 'g gdf \<Rightarrow> error + 'g gdf" where
  "improve_geometry_collection lib fr =
     and_then (improve_geometry_collection_rows lib (feats fr) (feats fr))
       (\<lambda>fs. Inr (fr\<lparr>feats := fs\<rparr>))"

fun make_valid_rows :: "'g library \<Rightarrow> 'g feature list \<Rightarrow> 'g feature list \<Rightarrow> 'g feature list" where
  "make_valid_rows lib [] fs = fs"
| "make_valid_rows lib (row # rest) fs =
     (if \<not> is_valid lib (geometry row)
      then (let fix = make_valid lib (geometry row)
            in if setitem_raises lib fix
               then make_valid_rows lib rest (loc_set_geometry (label row) (buffer lib 0) fs)
               else make_valid_rows lib rest (loc_set_geometry (label row) (\<lambda>_. fix) fs))
      else make_valid_rows lib rest fs)"

definition make_valid_geodataframe :: "'g library \<Rightarrow> 'g gdf \<Rightarrow> 'g gdf" where
  \<comment> \<open>\<open>MakeValidGeometries.__make_valid\<close>: the repair loop, \<open>buffer(0)\<close> on every row,
      the reprojection to EPSG 4326\<close>
  "make_valid_geodataframe lib fr =
     (let repaired = make_valid_rows lib (feats fr) (feats fr);
          buffered = map (\<lambda>f. f\<lparr>geometry := buffer lib 0 (geometry f)\<rparr>) repaired
      in reproject_epsg lib 4326 (fr\<lparr>feats := buffered\<rparr>))"

definition improve_geometry :: "'g library \<Rightarrow> 'g gdf \<Rightarrow> error + 'g gdf" where
  \<comment> \<open>\<open>MakeValidGeometries(geodataframe).improve_geometry()\<close>\<close>
  "improve_geometry lib fr =
     and_then (improve_geometry_collection lib (MakeValidGeometries lib fr))
       (\<lambda>new_geodataframe. Inr (make_valid_geodataframe lib new_geodataframe))"

subsection \<open>Area\<close>

definition round_half_even :: "real \<Rightarrow> int" where
  "round_half_even x =
     (let f = \<lfloor>x\<rfloor>; d = x - of_int f
      in if d < 1 / 2 then f else if 1 / 2 < d then f + 1 else if even f then f else f + 1)"

definition round7 :: "real \<Rightarrow> real" where
  \<comment> \<open>\<open>round(x, 7)\<close> of a numeric column\<close>
  "round7 x = of_int (round_half_even (x * 10 ^ 7)) / 10 ^ 7"

definition Area :: "'g library \<Rightarrow> 'g gdf \<Rightarrow> error + 'g gdf" where
  \<comment> \<open>the constructor: \<open>ReprojectGeometries(geodataframe, to='utm').reproject()\<close>\<close>
  "Area lib fr = reproject lib UTM fr"

definition set_area_column :: "'g library \<Rightarrow> string \<Rightarrow> 'g gdf \<Rightarrow> 'g gdf" where
  \<comment> \<open>\<open>self.geodataframe[column_name] = round(self.geodataframe['geometry'].area / 10000, 7)\<close>\<close>
  "set_area_column lib column_name fr =
     fr\<lparr>feats := map (\<lambda>f. f\<lparr>attrs := (attrs f)(column_name \<mapsto>
                        Number (round7 (area lib (geometry f) / 10000)))\<rparr>) (feats fr)\<rparr>"

definition calculate_area :: "'g library \<Rightarrow> string \<Rightarrow> 'g gdf \<Rightarrow> error + 'g gdf" where
  \<comment> \<open>\<open>Area(geodataframe, column_name).calculate_area()\<close>\<close>
  "calculate_area lib column_name fr =
     and_then (Area lib fr)
       (\<lambda>self_geodataframe. improve_geometry lib (set_area_column lib column_name self_geodataframe))"

section \<open>Predicates used in the statements\<close>

definition janela_ok :: "ndvi_row \<Rightarrow> bool" where
  \<comment> \<open>the harvest window is one of the three codes\<close>
  "janela_ok r =
     (JAN_COL r = Some INICIO \<or> JAN_COL r = Some MEDIA \<or> JAN_COL r = Some TARDIA)"

definition janela_blank :: "ndvi_row \<Rightarrow> bool" where
  "janela_blank r = (JAN_COL r = Some '''')"

definition date_area :: "ndvi_row \<Rightarrow> date option \<times> real option" where
  \<comment> \<open>the two columns \<open>__classify_date_image\<close> reads\<close>
  "date_area r = (DATA_IMG r, AREA_NDVI r)"

fun underscore_join :: "string list \<Rightarrow> string" where
  \<comment> \<open>the parts, with an underscore between two of them\<close>
  "underscore_join [] = []"
| "underscore_join [s] = s"
| "underscore_join (s # t # ts) = s @ ''_'' @ underscore_join (t # ts)"

definition final_chave :: "string \<Rightarrow> int agg_row \<Rightarrow> string" where
  \<comment> \<open>client id, season, window, derived stage, harvest window, grid code\<close>
  "final_chave client r =
     underscore_join
       [client, astype_str_int (safra r), astype_str (janela r), astype_str (estagio r),
        astype_str (jan_col r), astype_str_int (gridcode r)]"

definition grouping_fields_present :: "'s agg_row \<Rightarrow> bool" where
  \<comment> \<open>the grouping columns of phase 2 that may be missing in a row of phase 1\<close>
  "grouping_fields_present r =
     (janela r \<noteq> None \<and> estagio r \<noteq> None \<and> jan_col r \<noteq> None \<and> gridcode r \<noteq> None
      \<and> tp_prop r \<noteq> None \<and> data_img r \<noteq> None)"

definition area_value :: "real option \<Rightarrow> real" where
  \<comment> \<open>what a cell adds to a sum that skips missing values\<close>
  "area_value v = (case v of None \<Rightarrow> 0 | Some x \<Rightarrow> x)"

definition keyed_row :: "string \<Rightarrow> string agg_row \<Rightarrow> int agg_row" where
  \<comment> \<open>what \<open>__create_chave_final_column\<close> makes of one row\<close>
  "keyed_row client r =
     (let r1 = with_safra r (Option.bind (safra r) int_of_str)
      in r1\<lparr>chave := Some (final_chave client r1)\<rparr>)"

definition final_group :: "final_key \<times> int agg_row list \<Rightarrow> int agg_row" where
  \<comment> \<open>the row that phase 2 writes for one group\<close>
  "final_group kg =
     (case kg of (k, g) \<Rightarrow>
        (case k of (c, s, j, e, jc, gc, t, d) \<Rightarrow>
           \<lparr>chave = Some c, safra = Some s, fazenda = None, gridcode = Some gc,
            estagio = Some e, tp_prop = Some t, variedade = None, jan_col = Some jc,
            janela = Some j, area_ndvi = Some (nansum (map area_ndvi g)),
            data_img = Some d\<rparr>))"

definition southern :: "'g library \<Rightarrow> 'g feature \<Rightarrow> bool" where
  \<comment> \<open>the test \<open>c.y < 0\<close> on the centroid of the row\<close>
  "southern lib f = (snd (centroid lib (geometry f)) < 0)"

definition utm_epsg :: "'g library \<Rightarrow> 'g feature \<Rightarrow> nat" where
  \<comment> \<open>\<open>32700 + band\<close> for the zone number that \<open>utm.from_latlon\<close> gives the centroid\<close>
  "utm_epsg lib f =
     (let c = centroid lib (geometry f)
      in case from_latlon lib (snd c) (fst c) of
           None \<Rightarrow> 0
         | Some (utm_x, utm_y, band, zone) \<Rightarrow> 32700 + band)"

definition kept :: "'g library \<Rightarrow> 'g feature \<Rightarrow> bool" where
  \<comment> \<open>the rows that the constructor of \<open>MakeValidGeometries\<close> keeps\<close>
  "kept lib f =
     (\<not> is_empty lib (geometry f) \<and> geom_type_of lib (geometry f) \<in> set geoM_type_list)"

definition polygonal :: "'g library \<Rightarrow> 'g \<Rightarrow> bool" where
  "polygonal lib g = (geom_type_of lib g = Polygon \<or> geom_type_of lib g = MultiPolygon)"

definition buffer_contract :: "'g library \<Rightarrow> bool" where
  \<comment> \<open>shapely: a buffer is a valid Polygon or MultiPolygon (possibly empty)\<close>
  "buffer_contract lib = (\<forall>g. is_valid lib (buffer lib 0 g) \<and> polygonal lib (buffer lib 0 g))"

definition transform_contract :: "'g library \<Rightarrow> bool" where
  \<comment> \<open>a coordinate transform keeps the type of a geometry, and its validity\<close>
  "transform_contract lib =
     (\<forall>source target g g'. transform lib source target g = Some g' \<longrightarrow>
        geom_type_of lib g' = geom_type_of lib g \<and> (is_valid lib g \<longrightarrow> is_valid lib g'))"

section \<open>Example tables\<close>

definition empty_row :: ndvi_row where
  "empty_row =
     \<lparr>FAZENDA = None, VARIEDADE = None, TP_PROP = None, ESTAGIO = None, ESTAGIO_ANO = None,
      DESC_CANA = None, GRIDCODE = None, IDADE_IMG = None, DATA_IMG = None,
      DT_ULT_COR = None, AREA_NDVI = None, ESTAGIO_D = None, JAN_COL = None,
      MES_CORTE = 0\<rparr>"

definition field_row :: "string \<Rightarrow> ndvi_row" where
  \<comment> \<open>a complete field polygon with the given \<open>ESTAGIO\<close>\<close>
  "field_row e =
     empty_row\<lparr>FAZENDA := Some ''FAZ1'', VARIEDADE := Some ''VAR1'', TP_PROP := Some ''PROPRIA'',
       ESTAGIO := Some e, GRIDCODE := Some 3, IDADE_IMG := Some 12,
       DATA_IMG := Some \<lparr>year = 2025, month = Mar, day = 10\<rparr>,
       DT_ULT_COR := Some \<lparr>year = 2024, month = Jul, day = 2\<rparr>,
       AREA_NDVI := Some 2\<rparr>"

definition shapefile_columns :: "string list" where
  "shapefile_columns =
     [''FAZENDA'', ''VARIEDADE'', ''TP_PROP'', ''ESTAGIO'', ''DESC_CANA'', ''GRIDCODE'',
      ''IDADE_IMG'', ''DATA_IMG'', ''DT_ULT_COR'', ''AREA_NDVI'']"

definition estagio_2c_table :: ndvi_frame where
  \<comment> \<open>four fields whose \<open>ESTAGIO\<close> is written in the four notations of the second cut\<close>
  "estagio_2c_table =
     \<lparr>columns = shapefile_columns,
      rows = [field_row [CHR ''2'', degr, CHR ''C''],
              field_row [CHR ''2'', ordm, CHR ''C''],
              field_row ([CHR ''2'', ordm] @ '' CORTE''),
              field_row ([CHR ''2'', degr] @ '' CORTE'')]\<rparr>"

definition estagio_corte_table :: ndvi_frame where
  \<comment> \<open>one field written 2-ordinal-C, one written with the word CORTE\<close>
  "estagio_corte_table =
     \<lparr>columns = shapefile_columns,
      rows = [field_row [CHR ''2'', ordm, CHR ''C''],
              field_row ([CHR ''2'', ordm] @ '' CORTE'')]\<rparr>"

definition classified_rows :: "ndvi_row list" where
  \<comment> \<open>rows as the classification leaves them, two of them with no stage\<close>
  "classified_rows =
     [(field_row ''12M'')\<lparr>TP_PROP := Some PROPRIAS, ESTAGIO_D := Some corte_1\<rparr>,
      (field_row ''7C'')\<lparr>TP_PROP := Some PROPRIAS, ESTAGIO_D := Some ''''\<rparr>,
      (field_row ''SOQ'')\<lparr>TP_PROP := Some PROPRIAS, ESTAGIO_D := Some ''BIS''\<rparr>,
      (field_row ''7C'')\<lparr>TP_PROP := Some PROPRIAS, ESTAGIO_D := Some ''''\<rparr>]"

definition upstream_janela_table :: ndvi_frame where
  \<comment> \<open>a shapefile that brings its own \<open>JAN_COL\<close> column, empty in both rows\<close>
  "upstream_janela_table =
     \<lparr>columns = shapefile_columns @ [''JAN_COL''],
      rows = [(field_row ''12M'')\<lparr>JAN_COL := Some ''''\<rparr>, (field_row ''15M'')\<lparr>JAN_COL := None\<rparr>]\<rparr>"

definition plain_table :: ndvi_frame where
  \<comment> \<open>a shapefile without \<open>JAN_COL\<close>\<close>
  "plain_table =
     \<lparr>columns = shapefile_columns,
      rows = [field_row ''12M'', field_row [CHR ''3'', ordm, CHR ''C''],
              (field_row ''EXP'')\<lparr>DT_ULT_COR := None, IDADE_IMG := Some 9\<rparr>]\<rparr>"



definition three_polygons :: "ndvi_row list" where
  \<comment> \<open>three classified polygons of one farm, stage, ownership, variety and window\<close>
  "three_polygons =
     map (\<lambda>a. (field_row ''12M'')\<lparr>GRIDCODE := Some 10, TP_PROP := Some PROPRIAS,
                  ESTAGIO_D := Some corte_1, JAN_COL := Some INICIO, AREA_NDVI := Some a\<rparr>)
       [2, 3, 3 / 2]"

definition three_polygons_phase1 :: "string agg_row list" where
  "three_polygons_phase1 =
     groupby_intersect_ndvi_data_by_chave
       (create_chave_column (summarized_format_columns 2025 ''J1'' three_polygons))"

definition unwindowed_phase1 :: "string agg_row list" where
  \<comment> \<open>phase 1 of one classified polygon whose \<open>JAN_COL\<close> is missing\<close>
  "unwindowed_phase1 =
     groupby_intersect_ndvi_data_by_chave
       (create_chave_column (summarized_format_columns 2025 ''J1''
         [(field_row ''12M'')\<lparr>TP_PROP := Some PROPRIAS, ESTAGIO_D := Some corte_1,
            JAN_COL := None, AREA_NDVI := Some 2\<rparr>]))"

definition clientes :: "(int \<times> string) list" where
  "clientes = [(7, ''USINA SETE''), (8, ''USINA OITO'')]"

definition old_warehouse :: warehouse where
  \<comment> \<open>an earlier load of the unit (7, 2025, J1) and a row of another client\<close>
  "old_warehouse =
     [\<lparr>chave = Some ''7_2025_J1_BIS_TARDIA_2'', safra = Some 2025, fazenda = None,
       gridcode = Some 2, estagio = Some ''BIS'', tp_prop = Some PROPRIAS, variedade = None,
       jan_col = Some TARDIA, janela = Some ''J1'', area_ndvi = Some 4,
       data_img = Some \<lparr>year = 2025, month = Feb, day = 1\<rparr>,
       client_id = Some 7, client_name = Some ''USINA SETE''\<rparr>,
      \<lparr>chave = Some ''8_2025_J1_BIS_TARDIA_2'', safra = Some 2025, fazenda = None,
       gridcode = Some 2, estagio = Some ''BIS'', tp_prop = Some PROPRIAS, variedade = None,
       jan_col = Some TARDIA, janela = Some ''J1'', area_ndvi = Some 9,
       data_img = Some \<lparr>year = 2025, month = Feb, day = 1\<rparr>,
       client_id = Some 8, client_name = Some ''USINA OITO''\<rparr>]"

text \<open>
  A stand-in for the three libraries, to run the functions on: a shape knows its type,
  whether it is valid, its centroid, its area, the EPSG code its coordinates are in
  and its parts. A transform changes the code only; \<open>buffer\<close> gives a valid polygon;
  the zone number is the standard sixth of the longitude.
\<close>

datatype shape =
  Shape (kind: geom_type) (valid: bool) (centre: "real \<times> real") (extent: real)
    (code: nat) (members: "shape list")

definition zone_number :: "real \<Rightarrow> nat" where
  "zone_number longitude = nat (\<lfloor>(longitude + 180) / 6\<rfloor> mod 60) + 1"

definition stand_in :: "shape library" where
  "stand_in =
     \<lparr>geom_type_of = kind,
      is_empty = (\<lambda>s. extent s = 0 \<and> members s = []),
      is_valid = valid,
      make_valid = (\<lambda>s. Shape (kind s) True (centre s) (extent s) (code s) (members s)),
      buffer = (\<lambda>d s. Shape (if kind s = Polygon then Polygon else MultiPolygon) True
                        (centre s) (extent s) (code s) []),
      centroid = centre,
      area = extent,
      geoms = members,
      explode = (\<lambda>s. if members s = [] then [s] else members s),
      unary_union = (\<lambda>ss. Shape MultiPolygon True (centre (hd ss)) (sum_list (map extent ss))
                          (code (hd ss)) ss),
      wkt_loads_str = (\<lambda>s. s),
      transform = (\<lambda>source target s.
                     Some (Shape (kind s) (valid s) (centre s) (extent s) target (members s))),
      from_latlon = (\<lambda>latitude longitude.
                     if - 80 \<le> latitude \<and> latitude \<le> 84 \<and> - 180 \<le> longitude \<and> longitude < 180
                     then Some (0, 0, zone_number longitude, CHR ''K'') else None),
      setitem_raises = (\<lambda>s. False)\<rparr>"

definition no_attrs :: "string \<Rightarrow> cell option" where
  "no_attrs = (\<lambda>c. None)"

definition field_north :: "shape feature" where
  \<comment> \<open>a field in Roraima, 2.8 degrees north\<close>
  "field_north =
     \<lparr>label = 0, geometry = Shape Polygon True (- 60.7, 2.8) 25000 4674 [], attrs = no_attrs\<rparr>"

definition field_south :: "shape feature" where
  \<comment> \<open>a field near Ribeirao Preto, 21.2 degrees south\<close>
  "field_south =
     \<lparr>label = 1, geometry = Shape Polygon True (- 47.8, - 21.2) 40000 4674 [], attrs = no_attrs\<rparr>"

definition mixed_collection :: "shape gdf" where
  "mixed_collection = \<lparr>crs = Some 4674, feats = [field_north, field_south]\<rparr>"

definition northern_collection :: "shape gdf" where
  "northern_collection = \<lparr>crs = Some 4674, feats = [field_north]\<rparr>"

definition messy_collection :: "shape gdf" where
  \<comment> \<open>a collection of a polygon and a line, a lone line, a polygon that is not valid\<close>
  "messy_collection =
     \<lparr>crs = Some 4674,
      feats =
        [\<lparr>label = 0,
          geometry = Shape GeometryCollection True (- 47.8, - 21.2) 30000 4674
                       [Shape Polygon True (- 47.8, - 21.2) 30000 4674 [],
                        Shape LineString True (- 47.8, - 21.2) 0 4674 []],
          attrs = no_attrs\<rparr>,
         \<lparr>label = 1, geometry = Shape LineString True (- 47.9, - 21.3) 5 4674 [],
          attrs = no_attrs\<rparr>,
         \<lparr>label = 2, geometry = Shape Polygon False (- 48, - 21.4) 12000 4674 [],
          attrs = no_attrs\<rparr>]\<rparr>"

section \<open>Lemmas on the column operations\<close>

lemma set_drop_duplicates_from: "set (drop_duplicates_from seen xs) = set xs - set seen"
  by (induction xs arbitrary: seen) auto

lemma distinct_drop_duplicates_from: "distinct (drop_duplicates_from seen xs)"
  by (induction xs arbitrary: seen) (auto simp: set_drop_duplicates_from)

lemma set_drop_duplicates: "set (drop_duplicates xs) = set xs"
  by (simp add: drop_duplicates_def set_drop_duplicates_from)

lemma distinct_drop_duplicates: "distinct (drop_duplicates xs)"
  by (simp add: drop_duplicates_def distinct_drop_duplicates_from)

lemma set_map_filter_Some: "set (List.map_filter f xs) = {y. \<exists>x\<in>set xs. f x = Some y}"
  by (induction xs) (auto split: option.splits)

lemma loc_set_inv:
  assumes "\<forall>r\<in>set rs. P r"
    and "\<And>r. P r \<Longrightarrow> sel r \<Longrightarrow> Q (upd r)"
    and "\<And>r. P r \<Longrightarrow> \<not> sel r \<Longrightarrow> Q r"
  shows "\<forall>r\<in>set (loc_set sel upd rs). Q r"
  using assms by (auto simp: loc_set_def)

lemma loc_set_keep:
  assumes "\<forall>r\<in>set rs. P r" and "\<And>r. P r \<Longrightarrow> sel r \<Longrightarrow> P (upd r)"
  shows "\<forall>r\<in>set (loc_set sel upd rs). P r"
  using assms by (auto simp: loc_set_def)

lemma map_inv:
  assumes "\<forall>r\<in>set rs. P r" and "\<And>r. P r \<Longrightarrow> Q (f r)"
  shows "\<forall>r\<in>set (map f rs). Q r"
  using assms by auto

section \<open>Validation of the stage codes\<close>

lemma estagios_validation_Inl:
  "estagios_validation rs = Inl e \<longleftrightarrow>
     (\<exists>r\<in>set rs. \<not> isin (ESTAGIO_D r) estagios_values) \<and>
     e = InvalidEstagioD
           (drop_duplicates
             (map ESTAGIO_D (filter (\<lambda>r. \<not> isin (ESTAGIO_D r) estagios_values) rs)))
           (drop_duplicates (map ESTAGIO_D rs))"
  by (auto simp: estagios_validation_def Let_def filter_empty_conv)

lemma gridcode_validation_cases:
  "gridcode_validation rs = Inr () \<or> (\<exists>w. gridcode_validation rs = Inl (InvalidGridcode w))"
  by (simp add: gridcode_validation_def Let_def)

lemma contratos_validation_cases:
  "contratos_validation rs = Inr () \<or> (\<exists>w. contratos_validation rs = Inl (InvalidTpProp w))"
  by (simp add: contratos_validation_def Let_def)

lemma NdviDataValidation_estagio_error:
  "NdviDataValidation rs = Inl (InvalidEstagioD w a) \<longleftrightarrow>
     estagios_validation rs = Inl (InvalidEstagioD w a)"
  using gridcode_validation_cases[of rs] contratos_validation_cases[of rs]
  by (cases "estagios_validation rs") (auto simp: NdviDataValidation_def and_then_def)

text \<open>
  C4. The validation raises the error on \<open>ESTAGIO_D\<close> exactly when some row holds a
  value outside the nine stage codes (a missing value is outside); the error carries
  the distinct offending values in the order of their first rows; and a table that
  passes is returned as it is, no row dropped.
\<close>

theorem estagios_validation_closed_set:
  "((\<exists>w a. NdviDataValidation rs = Inl (InvalidEstagioD w a))
      \<longleftrightarrow> (\<exists>r\<in>set rs. \<not> isin (ESTAGIO_D r) estagios_values))
   \<and> (\<forall>w a. NdviDataValidation rs = Inl (InvalidEstagioD w a) \<longrightarrow>
          w = drop_duplicates
                (map ESTAGIO_D (filter (\<lambda>r. \<not> isin (ESTAGIO_D r) estagios_values) rs)) \<and>
          distinct w \<and>
          set w = {ESTAGIO_D r |r. r \<in> set rs \<and> \<not> isin (ESTAGIO_D r) estagios_values})
   \<and> (\<forall>fr fr'. validated fr = Inr fr' \<longrightarrow> fr' = fr)"
proof (intro conjI allI impI)
  show "(\<exists>w a. NdviDataValidation rs = Inl (InvalidEstagioD w a))
      \<longleftrightarrow> (\<exists>r\<in>set rs. \<not> isin (ESTAGIO_D r) estagios_values)"
    by (auto simp: NdviDataValidation_estagio_error estagios_validation_Inl)
next
  fix w a assume "NdviDataValidation rs = Inl (InvalidEstagioD w a)"
  then show w: "w = drop_duplicates
      (map ESTAGIO_D (filter (\<lambda>r. \<not> isin (ESTAGIO_D r) estagios_values) rs))"
    by (simp add: NdviDataValidation_estagio_error estagios_validation_Inl)
  show "distinct w" by (simp add: w distinct_drop_duplicates)
  show "set w = {ESTAGIO_D r |r. r \<in> set rs \<and> \<not> isin (ESTAGIO_D r) estagios_values}"
    by (auto simp: w set_drop_duplicates)
next
  fix fr fr' assume "validated fr = Inr fr'"
  then show "fr' = fr"
    by (cases "NdviDataValidation (rows fr)") (auto simp: validated_def and_then_def)
qed

theorem estagios_validation_closed_set_witness:
  "NdviDataValidation classified_rows =
     Inl (InvalidEstagioD [Some ''''] [Some corte_1, Some '''', Some ''BIS''])
   \<and> (\<exists>r\<in>set classified_rows. \<not> isin (ESTAGIO_D r) estagios_values)
   \<and> set [Some ''''] =
       {ESTAGIO_D r |r. r \<in> set classified_rows \<and> \<not> isin (ESTAGIO_D r) estagios_values}"
proof -
  have e: "NdviDataValidation classified_rows =
     Inl (InvalidEstagioD [Some ''''] [Some corte_1, Some '''', Some ''BIS''])"
    by code_simp
  from estagios_validation_closed_set[of classified_rows] e show ?thesis
    by blast
qed

section \<open>The second cut\<close>

text \<open>
  C5. Of the four notations of the second cut, the two with the word CORTE are not
  classified: \<open>__create_estagio_column\<close> removes the blank, and \<open>rules_2c\<close> lists them
  with the blank. Their \<open>ESTAGIO_D\<close> stays empty and the validation of \<open>ndvi_data\<close>
  raises.
\<close>

theorem estagio_2_corte_not_classified:
  "map_sum id (\<lambda>fr. map ESTAGIO_D (format_estagios (rows fr)))
     (create_estagio_column 2025 estagio_2c_table)
     = Inr [Some corte_2, Some corte_2, Some '''', Some '''']
   \<and> ndvi_data 2025 estagio_corte_table
     = Inl (InvalidEstagioD [Some ''''] [Some corte_2, Some ''''])"
  by code_simp

section \<open>The harvest window\<close>

lemma NdviDataValidation_ignores_JAN_COL:
  "NdviDataValidation (map (\<lambda>r. r\<lparr>JAN_COL := f r\<rparr>) rs) = NdviDataValidation rs"
  by (simp add: NdviDataValidation_def estagios_validation_def gridcode_validation_def
      contratos_validation_def filter_map o_def)

lemma janela_ok_not_empty: "janela_ok r \<Longrightarrow> \<not> jan_col_empty r"
  by (auto simp: janela_ok_def jan_col_empty_def isna_def str_len_def)

lemma janela_blank_empty: "janela_blank r \<Longrightarrow> jan_col_empty r"
  by (auto simp: janela_blank_def jan_col_empty_def isna_def str_len_def)

lemma janela_ok_upd:
  "janela_ok (r\<lparr>JAN_COL := Some INICIO\<rparr>)" "janela_ok (r\<lparr>JAN_COL := Some MEDIA\<rparr>)"
  "janela_ok (r\<lparr>JAN_COL := Some TARDIA\<rparr>)"
  by (simp_all add: janela_ok_def)

lemma classificar_estagio_jan:
  "\<forall>r\<in>set (classificar_estagio rs). janela_ok r \<or> janela_blank r"
  unfolding classificar_estagio_def Let_def
  by (intro loc_set_keep) (simp_all add: janela_blank_def janela_ok_upd)

lemma classificar_cana_bis_jan:
  assumes "\<forall>r\<in>set rs. janela_ok r \<or> janela_blank r"
  shows "\<forall>r\<in>set (classificar_cana_bis rs). janela_ok r \<or> janela_blank r"
  unfolding classificar_cana_bis_def
  by (rule loc_set_keep[OF assms]) (simp add: janela_ok_upd)

lemma month_number_ge: "0 \<le> month_number m" by (cases m) simp_all
lemma month_number_le: "month_number m \<le> 12" by (cases m) simp_all

lemma create_mes_corte_column_jan:
  assumes "\<forall>r\<in>set rs. janela_ok r \<or> janela_blank r"
  shows "\<forall>r\<in>set (create_mes_corte_column rs).
           janela_ok r \<or> (janela_blank r \<and> 0 \<le> MES_CORTE r \<and> MES_CORTE r \<le> 12)"
proof -
  let ?P = "\<lambda>r. janela_ok r \<or> (janela_blank r \<and> 0 \<le> MES_CORTE r \<and> MES_CORTE r \<le> 12)"
  have 0: "\<forall>r\<in>set (map (\<lambda>r. r\<lparr>MES_CORTE :=
              (case DT_ULT_COR r of None \<Rightarrow> 0 | Some d \<Rightarrow> month_number (month d))\<rparr>) rs). ?P r"
    by (rule map_inv[OF assms])
      (simp add: janela_ok_def janela_blank_def month_number_ge month_number_le
        split: option.splits)
  show ?thesis unfolding create_mes_corte_column_def Let_def
    by (rule loc_set_keep[OF 0]) (auto simp: janela_ok_def janela_blank_def)
qed

lemma classificar_mes_corte_jan:
  assumes "\<forall>r\<in>set rs. janela_ok r \<or> janela_blank r"
  shows "\<forall>r\<in>set (classificar_mes_corte rs). janela_ok r \<or> (janela_blank r \<and> MES_CORTE r = 0)"
proof -
  let ?rs0 = "create_mes_corte_column rs"
  let ?rs1 = "loc_set (\<lambda>r. jan_col_empty r \<and> MES_CORTE r \<in> set [1, 2, 3, 4, 5, 6])
                (\<lambda>r. r\<lparr>JAN_COL := Some INICIO\<rparr>) ?rs0"
  let ?rs2 = "loc_set (\<lambda>r. jan_col_empty r \<and> MES_CORTE r \<in> set [7, 8])
                (\<lambda>r. r\<lparr>JAN_COL := Some MEDIA\<rparr>) ?rs1"
  have 1: "\<forall>r\<in>set ?rs1. janela_ok r \<or>
             (janela_blank r \<and> (MES_CORTE r = 0 \<or> 7 \<le> MES_CORTE r \<and> MES_CORTE r \<le> 12))"
  proof (rule loc_set_inv[OF create_mes_corte_column_jan[OF assms]])
    fix r :: ndvi_row
    show "janela_ok (r\<lparr>JAN_COL := Some INICIO\<rparr>) \<or>
        (janela_blank (r\<lparr>JAN_COL := Some INICIO\<rparr>) \<and>
          (MES_CORTE (r\<lparr>JAN_COL := Some INICIO\<rparr>) = 0 \<or>
           7 \<le> MES_CORTE (r\<lparr>JAN_COL := Some INICIO\<rparr>) \<and> MES_CORTE (r\<lparr>JAN_COL := Some INICIO\<rparr>) \<le> 12))"
      by (simp add: janela_ok_def)
  next
    fix r :: ndvi_row
    assume p: "janela_ok r \<or> (janela_blank r \<and> 0 \<le> MES_CORTE r \<and> MES_CORTE r \<le> 12)"
      and n: "\<not> (jan_col_empty r \<and> MES_CORTE r \<in> set [1, 2, 3, 4, 5, 6])"
    show "janela_ok r \<or> (janela_blank r \<and> (MES_CORTE r = 0 \<or> 7 \<le> MES_CORTE r \<and> MES_CORTE r \<le> 12))"
    proof (cases "janela_ok r")
      case False
      with p have b: "janela_blank r" and m: "0 \<le> MES_CORTE r" "MES_CORTE r \<le> 12" by auto
      from n janela_blank_empty[OF b] have "MES_CORTE r \<notin> {1, 2, 3, 4, 5, 6}" by simp
      with m have "MES_CORTE r = 0 \<or> 7 \<le> MES_CORTE r" by auto
      with b m show ?thesis by simp
    qed simp
  qed
  have 2: "\<forall>r\<in>set ?rs2. janela_ok r \<or>
             (janela_blank r \<and> (MES_CORTE r = 0 \<or> 9 \<le> MES_CORTE r \<and> MES_CORTE r \<le> 12))"
  proof (rule loc_set_inv[OF 1])
    fix r :: ndvi_row
    show "janela_ok (r\<lparr>JAN_COL := Some MEDIA\<rparr>) \<or>
        (janela_blank (r\<lparr>JAN_COL := Some MEDIA\<rparr>) \<and>
          (MES_CORTE (r\<lparr>JAN_COL := Some MEDIA\<rparr>) = 0 \<or>
           9 \<le> MES_CORTE (r\<lparr>JAN_COL := Some MEDIA\<rparr>) \<and> MES_CORTE (r\<lparr>JAN_COL := Some MEDIA\<rparr>) \<le> 12))"
      by (simp add: janela_ok_def)
  next
    fix r :: ndvi_row
    assume p: "janela_ok r \<or> (janela_blank r \<and> (MES_CORTE r = 0 \<or> 7 \<le> MES_CORTE r \<and> MES_CORTE r \<le> 12))"
      and n: "\<not> (jan_col_empty r \<and> MES_CORTE r \<in> set [7, 8])"
    show "janela_ok r \<or> (janela_blank r \<and> (MES_CORTE r = 0 \<or> 9 \<le> MES_CORTE r \<and> MES_CORTE r \<le> 12))"
    proof (cases "janela_ok r")
      case False
      with p have b: "janela_blank r" and m: "MES_CORTE r = 0 \<or> 7 \<le> MES_CORTE r \<and> MES_CORTE r \<le> 12" by auto
      from n janela_blank_empty[OF b] have "MES_CORTE r \<notin> {7, 8}" by simp
      with m have "MES_CORTE r = 0 \<or> 9 \<le> MES_CORTE r \<and> MES_CORTE r \<le> 12" by auto
      with b show ?thesis by simp
    qed simp
  qed
  have 3: "\<forall>r\<in>set (loc_set (\<lambda>r. jan_col_empty r \<and> MES_CORTE r \<in> set [9, 10, 11, 12])
                (\<lambda>r. r\<lparr>JAN_COL := Some TARDIA\<rparr>) ?rs2). janela_ok r \<or> (janela_blank r \<and> MES_CORTE r = 0)"
  proof (rule loc_set_inv[OF 2])
    fix r :: ndvi_row
    show "janela_ok (r\<lparr>JAN_COL := Some TARDIA\<rparr>) \<or>
        (janela_blank (r\<lparr>JAN_COL := Some TARDIA\<rparr>) \<and> MES_CORTE (r\<lparr>JAN_COL := Some TARDIA\<rparr>) = 0)"
      by (simp add: janela_ok_def)
  next
    fix r :: ndvi_row
    assume p: "janela_ok r \<or> (janela_blank r \<and> (MES_CORTE r = 0 \<or> 9 \<le> MES_CORTE r \<and> MES_CORTE r \<le> 12))"
      and n: "\<not> (jan_col_empty r \<and> MES_CORTE r \<in> set [9, 10, 11, 12])"
    show "janela_ok r \<or> (janela_blank r \<and> MES_CORTE r = 0)"
    proof (cases "janela_ok r")
      case False
      with p have b: "janela_blank r" and m: "MES_CORTE r = 0 \<or> 9 \<le> MES_CORTE r \<and> MES_CORTE r \<le> 12" by auto
      from n janela_blank_empty[OF b] have "MES_CORTE r \<notin> {9, 10, 11, 12}" by simp
      with m have "MES_CORTE r = 0" by auto
      with b show ?thesis by simp
    qed simp
  qed
  show ?thesis unfolding classificar_mes_corte_def Let_def by (rule 3)
qed

lemma classificar_idade_img_jan:
  assumes inv: "\<forall>r\<in>set rs. janela_ok r \<or> (janela_blank r \<and> MES_CORTE r = 0)"
    and res: "classificar_idade_img rs = Inr rs'"
  shows "\<forall>r\<in>set rs'. janela_ok r"
proof -
  let ?rs1 = "loc_set (\<lambda>r. jan_col_empty r \<and> MES_CORTE r = 0 \<and> int_gt (IDADE_IMG r) 10)
                     (\<lambda>r. r\<lparr>JAN_COL := Some INICIO\<rparr>) rs"
  let ?rs2 = "loc_set (\<lambda>r. jan_col_empty r \<and> MES_CORTE r = 0 \<and> isin (IDADE_IMG r) [8, 9, 10])
                     (\<lambda>r. r\<lparr>JAN_COL := Some MEDIA\<rparr>) ?rs1"
  let ?rs3 = "loc_set (\<lambda>r. jan_col_empty r \<and> MES_CORTE r = 0 \<and> int_le (IDADE_IMG r) 7)
                   (\<lambda>r. r\<lparr>JAN_COL := Some TARDIA\<rparr>) ?rs2"
  from res have some: "\<forall>r\<in>set rs. \<exists>n. IDADE_IMG r = Some n" and rs': "rs' = ?rs3"
    by (auto simp: classificar_idade_img_def Let_def list_ex_iff isna_def split: if_splits)
  from inv some have 0: "\<forall>r\<in>set rs. janela_ok r \<or>
        (janela_blank r \<and> MES_CORTE r = 0 \<and> (\<exists>n. IDADE_IMG r = Some n))"
    by blast
  have 1: "\<forall>r\<in>set ?rs1. janela_ok r \<or>
        (janela_blank r \<and> MES_CORTE r = 0 \<and> (\<exists>n. IDADE_IMG r = Some n \<and> n \<le> 10))"
  proof (rule loc_set_inv[OF 0])
    fix r :: ndvi_row
    show "janela_ok (r\<lparr>JAN_COL := Some INICIO\<rparr>) \<or>
        (janela_blank (r\<lparr>JAN_COL := Some INICIO\<rparr>) \<and> MES_CORTE (r\<lparr>JAN_COL := Some INICIO\<rparr>) = 0 \<and>
          (\<exists>n. IDADE_IMG (r\<lparr>JAN_COL := Some INICIO\<rparr>) = Some n \<and> n \<le> 10))"
      by (simp add: janela_ok_def)
  next
    fix r :: ndvi_row
    assume p: "janela_ok r \<or> (janela_blank r \<and> MES_CORTE r = 0 \<and> (\<exists>n. IDADE_IMG r = Some n))"
      and n: "\<not> (jan_col_empty r \<and> MES_CORTE r = 0 \<and> int_gt (IDADE_IMG r) 10)"
    show "janela_ok r \<or> (janela_blank r \<and> MES_CORTE r = 0 \<and> (\<exists>n. IDADE_IMG r = Some n \<and> n \<le> 10))"
    proof (cases "janela_ok r")
      case False
      with p obtain k where b: "janela_blank r" and m: "MES_CORTE r = 0" and k: "IDADE_IMG r = Some k"
        by auto
      from n janela_blank_empty[OF b] m k have "k \<le> 10" by (simp add: int_gt_def)
      with b m k show ?thesis by simp
    qed simp
  qed
  have 2: "\<forall>r\<in>set ?rs2. janela_ok r \<or>
        (janela_blank r \<and> MES_CORTE r = 0 \<and> (\<exists>n. IDADE_IMG r = Some n \<and> n \<le> 7))"
  proof (rule loc_set_inv[OF 1])
    fix r :: ndvi_row
    show "janela_ok (r\<lparr>JAN_COL := Some MEDIA\<rparr>) \<or>
        (janela_blank (r\<lparr>JAN_COL := Some MEDIA\<rparr>) \<and> MES_CORTE (r\<lparr>JAN_COL := Some MEDIA\<rparr>) = 0 \<and>
          (\<exists>n. IDADE_IMG (r\<lparr>JAN_COL := Some MEDIA\<rparr>) = Some n \<and> n \<le> 7))"
      by (simp add: janela_ok_def)
  next
    fix r :: ndvi_row
    assume p: "janela_ok r \<or> (janela_blank r \<and> MES_CORTE r = 0 \<and> (\<exists>n. IDADE_IMG r = Some n \<and> n \<le> 10))"
      and n: "\<not> (jan_col_empty r \<and> MES_CORTE r = 0 \<and> isin (IDADE_IMG r) [8, 9, 10])"
    show "janela_ok r \<or> (janela_blank r \<and> MES_CORTE r = 0 \<and> (\<exists>n. IDADE_IMG r = Some n \<and> n \<le> 7))"
    proof (cases "janela_ok r")
      case False
      with p obtain k where b: "janela_blank r" and m: "MES_CORTE r = 0"
        and k: "IDADE_IMG r = Some k" "k \<le> 10"
        by auto
      from n janela_blank_empty[OF b] m k have "k \<notin> {8, 9, 10}" by (simp add: isin_def)
      with k have "k \<le> 7" by auto
      with b m k show ?thesis by simp
    qed simp
  qed
  have 3: "\<forall>r\<in>set ?rs3. janela_ok r"
  proof (rule loc_set_inv[OF 2])
    fix r :: ndvi_row
    show "janela_ok (r\<lparr>JAN_COL := Some TARDIA\<rparr>)" by (simp add: janela_ok_def)
  next
    fix r :: ndvi_row
    assume p: "janela_ok r \<or> (janela_blank r \<and> MES_CORTE r = 0 \<and> (\<exists>n. IDADE_IMG r = Some n \<and> n \<le> 7))"
      and n: "\<not> (jan_col_empty r \<and> MES_CORTE r = 0 \<and> int_le (IDADE_IMG r) 7)"
    show "janela_ok r"
    proof (rule ccontr)
      assume "\<not> janela_ok r"
      with p obtain k where b: "janela_blank r" and m: "MES_CORTE r = 0"
        and k: "IDADE_IMG r = Some k" "k \<le> 7"
        by auto
      with n janela_blank_empty[OF b] show False by (simp add: int_le_def)
    qed
  qed
  show ?thesis unfolding rs' by (rule 3)
qed

lemma format_gridcode_JAN_COL:
  assumes "format_gridcode rs = Inr rs'"
  shows "map JAN_COL rs' = map JAN_COL rs"
  using assms by (auto simp: format_gridcode_def o_def split: if_splits)

lemma classify_janela_colheita_jan:
  assumes "''JAN_COL'' \<notin> set (columns fr)" and "classify_janela_colheita fr = Inr fr'"
  shows "\<forall>r\<in>set (rows fr'). janela_ok r"
proof -
  let ?rs3 = "classificar_mes_corte (classificar_cana_bis (classificar_estagio (rows fr)))"
  from assms obtain rs4 where i: "classificar_idade_img ?rs3 = Inr rs4"
    and g: "format_gridcode rs4 = Inr (rows fr')"
    by (auto simp: classify_janela_colheita_def and_then_def split: sum.splits)
  have 4: "\<forall>r\<in>set rs4. janela_ok r"
    by (rule classificar_idade_img_jan[OF classificar_mes_corte_jan[OF
          classificar_cana_bis_jan[OF classificar_estagio_jan]] i])
  have eq: "JAN_COL ` set (rows fr') = JAN_COL ` set rs4"
    using format_gridcode_JAN_COL[OF g] by (metis list.set_map)
  show ?thesis
  proof
    fix r assume "r \<in> set (rows fr')"
    then have "JAN_COL r \<in> JAN_COL ` set rs4" using eq by blast
    then obtain r0 where "r0 \<in> set rs4" "JAN_COL r = JAN_COL r0" by blast
    with 4 show "janela_ok r" by (simp add: janela_ok_def)
  qed
qed

lemma classify_janela_colheita_upstream:
  assumes "''JAN_COL'' \<in> set (columns fr)" and "classify_janela_colheita fr = Inr fr'"
  shows "map JAN_COL (rows fr') = map JAN_COL (rows fr)"
proof -
  from assms have "format_gridcode (rows fr) = Inr (rows fr')"
    by (auto simp: classify_janela_colheita_def and_then_def split: sum.splits)
  then show ?thesis by (rule format_gridcode_JAN_COL)
qed

text \<open>
  C9, as the code has it. When the table has no \<open>JAN_COL\<close> column, the four steps
  leave no row empty: every row ends with one of the three window codes. When the
  column comes with the shapefile, its values are kept as they are. The validation
  reads \<open>ESTAGIO_D\<close>, \<open>GRIDCODE\<close> and \<open>TP_PROP\<close> only: its result is the same
  whatever \<open>JAN_COL\<close> holds, so it raises nothing for an empty one.
\<close>

theorem janela_classified_never_validated:
  "(''JAN_COL'' \<notin> set (columns fr) \<longrightarrow>
      (\<forall>fr'. classify_janela_colheita fr = Inr fr' \<longrightarrow> (\<forall>r\<in>set (rows fr'). janela_ok r)))
   \<and> (''JAN_COL'' \<in> set (columns fr) \<longrightarrow>
      (\<forall>fr'. classify_janela_colheita fr = Inr fr' \<longrightarrow>
         map JAN_COL (rows fr') = map JAN_COL (rows fr)))
   \<and> NdviDataValidation (map (\<lambda>r. r\<lparr>JAN_COL := v r\<rparr>) rs) = NdviDataValidation rs"
  using classify_janela_colheita_jan classify_janela_colheita_upstream
    NdviDataValidation_ignores_JAN_COL
  by blast

theorem janela_classified_never_validated_witness:
  "''JAN_COL'' \<notin> set (columns plain_table)
   \<and> (\<exists>fr'. classify_janela_colheita plain_table = Inr fr'
          \<and> map JAN_COL (rows fr') = [Some TARDIA, Some MEDIA, Some MEDIA]
          \<and> list_all janela_ok (rows fr'))"
proof -
  have a: "''JAN_COL'' \<notin> set (columns plain_table)"
    by (simp add: plain_table_def shapefile_columns_def)
  have "map_sum id (\<lambda>fr. map JAN_COL (rows fr)) (classify_janela_colheita plain_table)
          = Inr [Some TARDIA, Some MEDIA, Some MEDIA]"
    by code_simp
  then obtain fr' where b: "classify_janela_colheita plain_table = Inr fr'"
    and c: "map JAN_COL (rows fr') = [Some TARDIA, Some MEDIA, Some MEDIA]"
    by (cases "classify_janela_colheita plain_table") auto
  from janela_classified_never_validated[of plain_table] a b
  have "\<forall>r\<in>set (rows fr'). janela_ok r"
    by blast
  then have "list_all janela_ok (rows fr')"
    by (simp add: list_all_iff)
  with b c have "\<exists>fr'. classify_janela_colheita plain_table = Inr fr'
          \<and> map JAN_COL (rows fr') = [Some TARDIA, Some MEDIA, Some MEDIA]
          \<and> list_all janela_ok (rows fr')"
    by (intro exI[of _ fr']) simp
  with a show ?thesis by simp
qed

text \<open>
  C9 as stated fails: both rows of this table have an empty \<open>JAN_COL\<close> (an empty string,
  a missing value), and \<open>ndvi_data\<close> returns the table with them, no error raised.
\<close>

theorem empty_janela_passes_validation:
  "map_sum id (\<lambda>fr. map JAN_COL (rows fr)) (ndvi_data 2025 upstream_janela_table)
     = Inr [Some '''', None]"
  by code_simp

section \<open>Printing and reading integers\<close>

lemma digit_val_digit_char: "d < 10 \<Longrightarrow> digit_val (digit_char d) = Some d"
proof -
  assume "d < 10"
  then have "d \<in> {0,1,2,3,4,5,6,7,8,9}" by auto
  then show ?thesis by (auto simp: digit_val_def digit_char_def)
qed

lemma nat_of_digits_append:
  "nat_of_digits acc (xs @ ys) = Option.bind (nat_of_digits acc xs) (\<lambda>a. nat_of_digits a ys)"
  by (induction xs arbitrary: acc) (auto split: option.splits)

lemma nat_of_digits_str_of_nat: "nat_of_digits 0 (str_of_nat n) = Some n"
proof (induction n rule: str_of_nat.induct)
  case (1 n)
  show ?case
  proof (cases "n < 10")
    case True
    then show ?thesis by (subst str_of_nat.simps) (simp add: digit_val_digit_char)
  next
    case False
    with 1 have ih: "nat_of_digits 0 (str_of_nat (n div 10)) = Some (n div 10)" by simp
    have d: "digit_val (digit_char (n mod 10)) = Some (n mod 10)"
      by (rule digit_val_digit_char) simp
    show ?thesis
      using False by (subst str_of_nat.simps) (simp add: nat_of_digits_append ih d)
  qed
qed

lemma str_of_nat_nonempty: "str_of_nat n \<noteq> []"
  by (subst str_of_nat.simps) simp

lemma digit_char_not_minus: "d < 10 \<Longrightarrow> digit_char d \<noteq> CHR ''-''"
proof -
  assume "d < 10"
  then have "d \<in> {0,1,2,3,4,5,6,7,8,9}" by auto
  then show ?thesis by (auto simp: digit_char_def)
qed

lemma hd_str_of_nat: "hd (str_of_nat n) \<noteq> CHR ''-''"
proof (induction n rule: str_of_nat.induct)
  case (1 n)
  show ?case
  proof (cases "n < 10")
    case True
    then show ?thesis by (subst str_of_nat.simps) (simp add: digit_char_not_minus)
  next
    case False
    with 1 have "hd (str_of_nat (n div 10)) \<noteq> CHR ''-''" by simp
    then show ?thesis
      using False by (subst str_of_nat.simps) (simp add: str_of_nat_nonempty)
  qed
qed

lemma nat_of_str_str_of_nat: "nat_of_str (str_of_nat n) = Some n"
  by (simp add: nat_of_str_def str_of_nat_nonempty nat_of_digits_str_of_nat)

lemma int_of_str_str_of_int: "int_of_str (str_of_int i) = Some i"
proof (cases "i < 0")
  case True
  then show ?thesis
    by (simp add: int_of_str_def str_of_int_def nat_of_str_str_of_nat)
next
  case False
  obtain c cs where s: "str_of_nat (nat i) = c # cs"
    using str_of_nat_nonempty[of "nat i"] by (cases "str_of_nat (nat i)") auto
  with hd_str_of_nat[of "nat i"] have "c \<noteq> CHR ''-''" by simp
  with False s nat_of_str_str_of_nat[of "nat i"] show ?thesis
    by (simp add: int_of_str_def str_of_int_def)
qed

section \<open>The image date of the table\<close>


lemma set_grouped_keys:
  "set (sort_key date_key (drop_duplicates (List.map_filter DATA_IMG rs)))
     = {d. \<exists>r\<in>set rs. DATA_IMG r = Some d}"
  by (simp add: set_drop_duplicates set_map_filter_Some)


lemma classify_date_image_raises:
  "classify_date_image rs = Inl e \<longleftrightarrow> e = EmptyArgmax \<and> (\<forall>r\<in>set rs. DATA_IMG r = None)"
proof -
  let ?ks = "sort_key date_key (drop_duplicates (List.map_filter DATA_IMG rs))"
  have "?ks = [] \<longleftrightarrow> (\<forall>r\<in>set rs. DATA_IMG r = None)"
  proof -
    have "?ks = [] \<longleftrightarrow> set ?ks = {}" by (simp only: set_empty)
    also have "\<dots> \<longleftrightarrow> (\<forall>r\<in>set rs. DATA_IMG r = None)"
      unfolding set_grouped_keys by (auto simp: Ball_def) (metis option.exhaust)
    finally show ?thesis .
  qed
  then show ?thesis
    by (cases ?ks) (auto simp: classify_date_image_def idxmax_def grouped_area_def and_then_def)
qed




lemma date_area_upd [simp]:
  "date_area (r\<lparr>JAN_COL := a\<rparr>) = date_area r"
  "date_area (r\<lparr>MES_CORTE := b\<rparr>) = date_area r"
  "date_area (r\<lparr>GRIDCODE := c\<rparr>) = date_area r"
  "date_area (r\<lparr>TP_PROP := a\<rparr>) = date_area r"
  "date_area (r\<lparr>ESTAGIO := a\<rparr>) = date_area r"
  "date_area (r\<lparr>ESTAGIO_D := a\<rparr>) = date_area r"
  by (simp_all add: date_area_def)


lemma map_date_area:
  assumes "\<And>r. date_area (f r) = date_area r"
  shows "map date_area (map f rs) = map date_area rs"
  using assms by simp












section \<open>The two groupings\<close>

lemma nansum_area_value: "nansum vs = sum_list (map area_value vs)"
  by (simp add: nansum_def area_value_def[abs_def])

lemma sum_list_other_key:
  "k \<notin> set ks \<Longrightarrow> (\<Sum>k'\<leftarrow>ks. if k = k' then x + g k' else g k') = (\<Sum>k'\<leftarrow>ks. g k')"
  by (induction ks) auto

lemma sum_list_single_key':
  assumes "distinct ks" "k \<in> set ks"
  shows "(\<Sum>k'\<leftarrow>ks. if k = k' then x + g k' else g k') = (x::real) + (\<Sum>k'\<leftarrow>ks. g k')"
  using assms by (induction ks) (auto simp: sum_list_other_key)

lemma groups_sum:
  fixes f :: "'r \<Rightarrow> real"
  assumes "distinct ks" and "\<forall>r\<in>set rs. \<forall>k. key r = Some k \<longrightarrow> k \<in> set ks"
  shows "(\<Sum>k\<leftarrow>ks. \<Sum>r\<leftarrow>filter (\<lambda>r. key r = Some k) rs. f r)
           = (\<Sum>r\<leftarrow>filter (\<lambda>r. key r \<noteq> None) rs. f r)"
  using assms(2)
proof (induction rs)
  case Nil
  show ?case by (simp add: sum_list_0)
next
  case (Cons r rs)
  then have ih: "(\<Sum>k\<leftarrow>ks. \<Sum>r\<leftarrow>filter (\<lambda>r. key r = Some k) rs. f r)
           = (\<Sum>r\<leftarrow>filter (\<lambda>r. key r \<noteq> None) rs. f r)" by simp
  show ?case
  proof (cases "key r")
    case None
    then show ?thesis using ih by simp
  next
    case (Some k)
    with Cons.prems have k: "k \<in> set ks" by simp
    have "(\<Sum>k'\<leftarrow>ks. \<Sum>x\<leftarrow>filter (\<lambda>x. key x = Some k') (r # rs). f x)
          = (\<Sum>k'\<leftarrow>ks. if k = k' then f r + (\<Sum>x\<leftarrow>filter (\<lambda>x. key x = Some k') rs. f x)
                                else (\<Sum>x\<leftarrow>filter (\<lambda>x. key x = Some k') rs. f x))"
      using Some by (intro arg_cong[where f = sum_list] map_cong) auto
    also have "\<dots> = f r + (\<Sum>k'\<leftarrow>ks. \<Sum>x\<leftarrow>filter (\<lambda>x. key x = Some k') rs. f x)"
      by (rule sum_list_single_key'[OF assms(1) k])
    finally show ?thesis using ih Some by simp
  qed
qed

lemma groupby_on_keys:
  "map fst (groupby_on ord key rs) = sort_key ord (drop_duplicates (List.map_filter key rs))"
  by (simp add: groupby_on_def o_def)


lemma groupby_on_set_keys:
  "set (map fst (groupby_on ord key rs)) = {k. \<exists>r\<in>set rs. key r = Some k}"
  by (simp only: groupby_on_keys set_sort set_drop_duplicates set_map_filter_Some)

lemma groupby_on_member:
  "(k, g) \<in> set (groupby_on ord key rs) \<Longrightarrow>
     g = filter (\<lambda>r. key r = Some k) rs \<and> (\<exists>r\<in>set rs. key r = Some k)"
  using groupby_on_set_keys[of ord key rs] by (auto simp: groupby_on_def)

lemma groupby_on_sum:
  fixes f :: "'r \<Rightarrow> real"
  shows "(\<Sum>(k, g)\<leftarrow>groupby_on ord key rs. \<Sum>r\<leftarrow>g. f r)
           = (\<Sum>r\<leftarrow>filter (\<lambda>r. key r \<noteq> None) rs. f r)"
proof -
  let ?ks = "sort_key ord (drop_duplicates (List.map_filter key rs))"
  have d: "distinct ?ks" by (simp add: distinct_drop_duplicates)
  have s: "\<forall>r\<in>set rs. \<forall>k. key r = Some k \<longrightarrow> k \<in> set ?ks"
    by (auto simp: set_drop_duplicates set_map_filter_Some)
  have "(\<Sum>(k, g)\<leftarrow>groupby_on ord key rs. \<Sum>r\<leftarrow>g. f r)
          = (\<Sum>k\<leftarrow>?ks. \<Sum>r\<leftarrow>filter (\<lambda>r. key r = Some k) rs. f r)"
    by (simp add: groupby_on_def o_def)
  also have "\<dots> = (\<Sum>r\<leftarrow>filter (\<lambda>r. key r \<noteq> None) rs. f r)"
    by (rule groups_sum[OF d s])
  finally show ?thesis .
qed

lemma phase1_area:
  "map area_ndvi (groupby_intersect_ndvi_data_by_chave rs)
     = map (\<lambda>(k, g). Some (nansum (map area_ndvi g))) (groupby_on id chave rs)"
  by (simp add: groupby_intersect_ndvi_data_by_chave_def o_def split_def)

lemma phase1_total:
  "nansum (map area_ndvi (groupby_intersect_ndvi_data_by_chave rs))
     = nansum (map area_ndvi (filter (\<lambda>r. chave r \<noteq> None) rs))"
proof -
  have "nansum (map area_ndvi (groupby_intersect_ndvi_data_by_chave rs))
      = (\<Sum>(k, g)\<leftarrow>groupby_on id chave rs. \<Sum>r\<leftarrow>g. area_value (area_ndvi r))"
    by (simp add: phase1_area nansum_area_value o_def split_def area_value_def)
  also have "\<dots> = (\<Sum>r\<leftarrow>filter (\<lambda>r. chave r \<noteq> None) rs. area_value (area_ndvi r))"
    by (rule groupby_on_sum)
  finally show ?thesis by (simp add: nansum_area_value o_def)
qed

lemma create_chave_column_total:
  "nansum (map area_ndvi (groupby_intersect_ndvi_data_by_chave (create_chave_column rs)))
     = nansum (map area_ndvi rs)"
  by (simp add: phase1_total create_chave_column_def o_def)

lemma astype_int_safra_Inr:
  assumes "astype_int_safra rs = Inr rs1"
  shows "rs1 = map (\<lambda>r. with_safra r (Option.bind (safra r) int_of_str)) rs"
    and "\<forall>r\<in>set rs. Option.bind (safra r) int_of_str \<noteq> None"
  using assms by (auto simp: astype_int_safra_def list_ex_iff split: if_splits)

lemma final_chave_unfold:
  "final_chave client r =
     client @ ''_'' @ astype_str_int (safra r) @ ''_'' @ astype_str (janela r) @ ''_'' @
     astype_str (estagio r) @ ''_'' @ astype_str (jan_col r) @ ''_'' @ astype_str_int (gridcode r)"
  by (simp add: final_chave_def)

lemma create_chave_final_column_Inr:
  assumes "create_chave_final_column client rs = Inr keyed"
  shows "keyed = map (keyed_row client) rs"
    and "\<forall>r\<in>set rs. Option.bind (safra r) int_of_str \<noteq> None"
proof -
  from assms obtain rs1 where a: "astype_int_safra rs = Inr rs1"
    and k: "keyed = map (\<lambda>r. r\<lparr>chave := Some (final_chave client r)\<rparr>) rs1"
    by (cases "astype_int_safra rs")
      (auto simp: create_chave_final_column_def and_then_def final_chave_unfold)
  from astype_int_safra_Inr[OF a] k show "keyed = map (keyed_row client) rs"
    and "\<forall>r\<in>set rs. Option.bind (safra r) int_of_str \<noteq> None"
    by (simp_all add: keyed_row_def Let_def o_def)
qed

lemma keyed_row_fields [simp]:
  "janela (keyed_row c r) = janela r" "estagio (keyed_row c r) = estagio r"
  "jan_col (keyed_row c r) = jan_col r" "gridcode (keyed_row c r) = gridcode r"
  "tp_prop (keyed_row c r) = tp_prop r" "data_img (keyed_row c r) = data_img r"
  "area_ndvi (keyed_row c r) = area_ndvi r"
  "safra (keyed_row c r) = Option.bind (safra r) int_of_str"
  "chave (keyed_row c r) = Some (final_chave c (keyed_row c r))"
  by (simp_all add: keyed_row_def with_safra_def Let_def final_chave_def)

lemma list_columns_Some_iff:
  "list_columns r = Some (c, s, j, e, jc, g, t, d) \<longleftrightarrow>
     chave r = Some c \<and> safra r = Some s \<and> janela r = Some j \<and> estagio r = Some e \<and>
     jan_col r = Some jc \<and> gridcode r = Some g \<and> tp_prop r = Some t \<and> data_img r = Some d"
  by (auto simp: list_columns_def split: option.splits)

lemma list_columns_None_iff:
  "list_columns r \<noteq> None \<longleftrightarrow>
     chave r \<noteq> None \<and> safra r \<noteq> None \<and> grouping_fields_present r"
  by (auto simp: list_columns_def grouping_fields_present_def split: option.splits)

lemma keyed_row_present:
  "Option.bind (safra r) int_of_str \<noteq> None \<Longrightarrow>
     list_columns (keyed_row c r) \<noteq> None \<longleftrightarrow> grouping_fields_present r"
  by (simp add: list_columns_None_iff grouping_fields_present_def del: not_None_eq)

lemma phase2_total:
  assumes "groupby_data_final client rs = Inr out"
  shows "nansum (map area_ndvi out) = nansum (map area_ndvi (filter grouping_fields_present rs))"
proof -
  from assms obtain keyed where k: "create_chave_final_column client rs = Inr keyed"
    and out: "out = map (\<lambda>(k, g).
                   (case k of (c, s, j, e, jc, gc, t, d) \<Rightarrow>
                      \<lparr>chave = Some c, safra = Some s, fazenda = None, gridcode = Some gc,
                       estagio = Some e, tp_prop = Some t, variedade = None, jan_col = Some jc,
                       janela = Some j, area_ndvi = Some (nansum (map area_ndvi g)),
                       data_img = Some d\<rparr>))
              (groupby_on final_key_order list_columns keyed)"
    by (cases "create_chave_final_column client rs")
      (auto simp: groupby_data_final_def and_then_def)
  note kk = create_chave_final_column_Inr[OF k]
  have "map area_ndvi out
      = map (\<lambda>(k, g). Some (nansum (map area_ndvi g))) (groupby_on final_key_order list_columns keyed)"
    by (simp add: out o_def split_def)
  then have "nansum (map area_ndvi out)
      = (\<Sum>(k, g)\<leftarrow>groupby_on final_key_order list_columns keyed. \<Sum>r\<leftarrow>g. area_value (area_ndvi r))"
    by (simp add: nansum_area_value o_def split_def area_value_def)
  also have "\<dots> = (\<Sum>r\<leftarrow>filter (\<lambda>r. list_columns r \<noteq> None) keyed. area_value (area_ndvi r))"
    by (rule groupby_on_sum)
  also have "filter (\<lambda>r. list_columns r \<noteq> None) keyed
      = map (keyed_row client) (filter grouping_fields_present rs)"
    unfolding kk(1) filter_map o_def
    using kk(2) by (intro arg_cong[where f = "map (keyed_row client)"] filter_cong refl)
      (simp add: keyed_row_present del: not_None_eq)
  finally show ?thesis by (simp add: nansum_area_value o_def)
qed

lemma groupby_data_final_Inr:
  assumes "groupby_data_final client rs = Inr out"
  shows "\<exists>keyed. create_chave_final_column client rs = Inr keyed
           \<and> out = map final_group (groupby_on final_key_order list_columns keyed)"
  using assms
  by (cases "create_chave_final_column client rs")
    (auto simp: groupby_data_final_def and_then_def final_group_def[abs_def] split_def)

lemma final_key_cases:
  fixes k :: final_key
  obtains c s j e jc gc t d where "k = (c, s, j, e, jc, gc, t, d)"
  by (cases k) auto

lemma list_columns_final_group: "list_columns (final_group (k, g)) = Some k"
  by (cases k rule: final_key_cases) (simp add: final_group_def list_columns_def)




text \<open>
  C2, as the code has it. Phase 1 keeps the total of \<open>area_ndvi\<close>: the key is a text,
  never missing, so every row falls in a group. Phase 2 keeps the total of the rows whose
  grouping columns are all present; a row in which one of them is missing belongs to no
  group of the \<open>groupby\<close> and its area is lost. The three polygons of areas 2, 3 and
  1.5 under one key give one row of phase 1 with area 6.5.
\<close>

theorem aggregation_total_area:
  "nansum (map area_ndvi (groupby_intersect_ndvi_data_by_chave (create_chave_column rs)))
     = nansum (map area_ndvi rs)
   \<and> (\<forall>out. groupby_data_final client rs2 = Inr out \<longrightarrow>
          nansum (map area_ndvi out)
            = nansum (map area_ndvi (filter grouping_fields_present rs2)))
   \<and> map (\<lambda>r. (chave r, area_ndvi r)) three_polygons_phase1
       = [(Some (''FAZ1_10_'' @ corte_1 @ ''_'' @ PROPRIAS @ ''_VAR1_'' @ INICIO @ ''_2025_J1''),
           Some (13 / 2))]"
proof (intro conjI allI impI)
  show "nansum (map area_ndvi (groupby_intersect_ndvi_data_by_chave (create_chave_column rs)))
     = nansum (map area_ndvi rs)"
    by (rule create_chave_column_total)
next
  fix out assume "groupby_data_final client rs2 = Inr out"
  then show "nansum (map area_ndvi out)
            = nansum (map area_ndvi (filter grouping_fields_present rs2))"
    by (rule phase2_total)
next
  show "map (\<lambda>r. (chave r, area_ndvi r)) three_polygons_phase1
       = [(Some (''FAZ1_10_'' @ corte_1 @ ''_'' @ PROPRIAS @ ''_VAR1_'' @ INICIO @ ''_2025_J1''),
           Some (13 / 2))]"
    by code_simp
qed

theorem aggregation_total_area_witness:
  "\<exists>out. groupby_data_final ''7'' three_polygons_phase1 = Inr out
      \<and> map area_ndvi out = [Some (13 / 2)]
      \<and> nansum (map area_ndvi out)
           = nansum (map area_ndvi (filter grouping_fields_present three_polygons_phase1))"
proof -
  have "map_sum id (map area_ndvi) (groupby_data_final ''7'' three_polygons_phase1)
          = Inr [Some (13 / 2)]"
    by code_simp
  then obtain out where r: "groupby_data_final ''7'' three_polygons_phase1 = Inr out"
    and m: "map area_ndvi out = [Some (13 / 2)]"
    by (cases "groupby_data_final ''7'' three_polygons_phase1") auto
  from aggregation_total_area[of _ "''7''" three_polygons_phase1] r
  have "nansum (map area_ndvi out)
           = nansum (map area_ndvi (filter grouping_fields_present three_polygons_phase1))"
    by blast
  with r m show ?thesis by (intro exI[of _ out]) simp
qed

text \<open>
  C2 as stated fails in phase 2: this row of phase 1 has no harvest window (the shapefile
  brought a \<open>JAN_COL\<close> column with a missing value); its area is 2 and phase 2
  returns no row at all.
\<close>

theorem phase2_drops_row_without_window:
  "nansum (map area_ndvi unwindowed_phase1) = 2
   \<and> map_sum id (\<lambda>out. (length out, nansum (map area_ndvi out)))
         (groupby_data_final ''7'' unwindowed_phase1) = Inr (0, 0)"
  by code_simp



section \<open>Loading a unit twice\<close>

lemma first_valid_const:
  assumes "g \<noteq> []" and "\<forall>r\<in>set g. f r = Some v"
  shows "first_valid (map f g) = Some v"
  using assms by (cases g) auto

lemma phase1_unit:
  assumes "r \<in> set (groupby_intersect_ndvi_data_by_chave
                       (create_chave_column (summarized_format_columns season window rs)))"
  shows "safra r = Some (str_of_int season) \<and> janela r = Some window"
proof -
  let ?rs1 = "create_chave_column (summarized_format_columns season window rs)"
  have all: "\<forall>x\<in>set ?rs1. safra x = Some (str_of_int season) \<and> janela x = Some window"
    by (auto simp: create_chave_column_def summarized_format_columns_def)
  from assms obtain k g where kg: "(k, g) \<in> set (groupby_on id chave ?rs1)"
    and r: "safra r = first_valid (map safra g)" "janela r = first_valid (map janela g)"
    by (auto simp: groupby_intersect_ndvi_data_by_chave_def)
  from groupby_on_member[OF kg] have g: "g = filter (\<lambda>x. chave x = Some k) ?rs1"
    and ne: "\<exists>x\<in>set ?rs1. chave x = Some k" by blast+
  from ne have "g \<noteq> []" unfolding g by (auto simp: filter_empty_conv)
  moreover from all have "\<forall>x\<in>set g. safra x = Some (str_of_int season)"
    "\<forall>x\<in>set g. janela x = Some window" unfolding g by auto
  ultimately show ?thesis by (simp add: r first_valid_const)
qed

lemma summarized_unit:
  assumes "ndvi_data_summarized season window client rs = Inr out" and "w \<in> set out"
  shows "safra w = Some season \<and> janela w = Some window"
proof -
  let ?rs2 = "groupby_intersect_ndvi_data_by_chave
                (create_chave_column (summarized_format_columns season window rs))"
  from assms(1) have f: "groupby_data_final (str_of_int client) ?rs2 = Inr out"
    by (simp add: ndvi_data_summarized_def Let_def)
  from groupby_data_final_Inr[OF f] obtain keyed
    where k: "create_chave_final_column (str_of_int client) ?rs2 = Inr keyed"
      and out: "out = map final_group (groupby_on final_key_order list_columns keyed)"
    by blast
  have keyed: "keyed = map (keyed_row (str_of_int client)) ?rs2"
    by (rule create_chave_final_column_Inr(1)[OF k])
  from assms(2) obtain kk g where kg: "(kk, g) \<in> set (groupby_on final_key_order list_columns keyed)"
    and w: "w = final_group (kk, g)"
    by (auto simp: out)
  from groupby_on_member[OF kg] obtain r where r: "r \<in> set keyed" "list_columns r = Some kk"
    by blast
  from r(1) keyed obtain r2 where r2: "r2 \<in> set ?rs2" "r = keyed_row (str_of_int client) r2"
    by auto
  from phase1_unit[OF r2(1)] have "safra r = Some season" "janela r = Some window"
    by (simp_all add: r2(2) int_of_str_str_of_int)
  moreover have "list_columns w = Some kk" by (simp add: w list_columns_final_group)
  ultimately show ?thesis
    using r(2) by (cases kk rule: final_key_cases) (simp add: list_columns_Some_iff)
qed

lemma insert_twice:
  assumes unit: "\<forall>r\<in>set data. safra r = Some season \<and> janela r = Some window"
    and first: "insert_ndvi_data_into_database True ins to_datetime clients_data
                  client window data season table = Inr table1"
  shows "insert_ndvi_data_into_database True ins to_datetime clients_data
           client window data season table1 = Inr table1"
proof -
  let ?m = "\<lambda>r::int warehouse_row. client_id r = Some client \<and> safra r = Some season \<and> janela r = Some window"
  let ?new = "map (\<lambda>r. r\<lparr>data_img := map_option to_datetime (data_img r)\<rparr>)
               (map (with_client client (get_client_data_interest clients_data client)) data)"
  let ?ins = "if ins then ?new else []"
  from first have ne: "?new \<noteq> []" and t1: "table1 = filter (\<lambda>r. \<not> ?m r) table @ ?ins"
    by (auto simp: insert_ndvi_data_into_database_def Let_def delete_old_rows_from_database_def
        delete_rows_def insert_dataframe_into_postgres_def split: list.splits)
  have m: "\<forall>r\<in>set ?new. ?m r"
    using unit by (auto simp: with_client_def)
  then have "filter (\<lambda>r. \<not> ?m r) ?new = []" by (auto simp: filter_empty_conv)
  then have "filter (\<lambda>r. \<not> ?m r) ?ins = []" by simp
  then have "filter (\<lambda>r. \<not> ?m r) table1 = filter (\<lambda>r. \<not> ?m r) table"
    unfolding t1 by simp
  then have "filter (\<lambda>r. \<not> ?m r) table1 @ ?ins = table1" by (simp add: t1)
  with ne show ?thesis
    by (cases ?new; cases ins)
      (simp_all add: insert_ndvi_data_into_database_def Let_def delete_old_rows_from_database_def
        delete_rows_def insert_dataframe_into_postgres_def)
qed

lemma main_unit_twice:
  assumes "main_unit True ins to_datetime clients_data client season window ndvi table = Inr table1"
  shows "main_unit True ins to_datetime clients_data client season window ndvi table1 = Inr table1"
proof (cases "ndvi = []")
  case True
  with assms show ?thesis by (simp add: main_unit_def and_then_def)
next
  case False
  with assms obtain data where s: "ndvi_data_summarized season window client ndvi = Inr data"
    and i: "(if data \<noteq> []
          then insert_ndvi_data_into_database True ins to_datetime
                 clients_data client window data season table
          else Inr table) = Inr table1"
    by (cases "ndvi_data_summarized season window client ndvi")
      (auto simp: main_unit_def and_then_def)
  show ?thesis
  proof (cases "data = []")
    case True
    with i s False show ?thesis by (simp add: main_unit_def and_then_def)
  next
    case ne: False
    with i have "insert_ndvi_data_into_database True ins to_datetime
                 clients_data client window data season table = Inr table1" by simp
    from insert_twice[OF _ this] summarized_unit[OF s]
    have "insert_ndvi_data_into_database True ins to_datetime
                 clients_data client window data season table1 = Inr table1" by blast
    with s False ne show ?thesis by (simp add: main_unit_def and_then_def)
  qed
qed

lemma insert_after_failed_delete:
  assumes "insert_ndvi_data_into_database False True to_datetime clients_data
             client window data season table = Inr table1"
  shows "data \<noteq> [] \<and> length table1 = length table + length data"
  using assms
  by (auto simp: insert_ndvi_data_into_database_def Let_def delete_old_rows_from_database_def
      delete_rows_def insert_dataframe_into_postgres_def split: list.splits)

text \<open>
  C8, as the code has it. When the database executes the delete statement (and the
  insert has the same outcome both times), loading a unit a second time with the same
  classified table leaves the warehouse as the first load left it, so with the same
  number of rows: the delete removes exactly the rows whose \<open>client_id\<close>, \<open>safra\<close> and
  \<open>janela\<close> are those of the unit, and every row that the summary of the unit inserts
  is such a row. When the delete statement raises, \<open>delete_rows\<close> returns with the
  table as it was and the insert runs all the same: the load adds the rows of the unit
  to the ones it finds.
\<close>

theorem loader_idempotent_when_delete_executes:
  "(main_unit True ins to_datetime clients_data client season window ndvi table = Inr table1
      \<longrightarrow> main_unit True ins to_datetime clients_data client season window ndvi table1
            = Inr table1)
   \<and> delete_old_rows_from_database True client window season table
       = filter (\<lambda>r. \<not> (client_id r = Some client \<and> safra r = Some season
                          \<and> janela r = Some window)) table
   \<and> delete_old_rows_from_database False client window season table = table
   \<and> ((\<forall>r\<in>set data. safra r = Some season \<and> janela r = Some window) \<longrightarrow>
        insert_ndvi_data_into_database True ins to_datetime clients_data
          client window data season table = Inr table2 \<longrightarrow>
        insert_ndvi_data_into_database True ins to_datetime clients_data
          client window data season table2 = Inr table2
        \<and> length table2
            = length (delete_old_rows_from_database True client window season table)
              + (if ins then length data else 0))
   \<and> (insert_ndvi_data_into_database False True to_datetime clients_data
          client window data season table = Inr table3 \<longrightarrow>
        data \<noteq> [] \<and> length table3 = length table + length data)"
proof (intro conjI impI)
  assume "main_unit True ins to_datetime clients_data client season window ndvi table
            = Inr table1"
  then show "main_unit True ins to_datetime clients_data client season window ndvi table1
            = Inr table1"
    by (rule main_unit_twice)
next
  show "delete_old_rows_from_database True client window season table
       = filter (\<lambda>r. \<not> (client_id r = Some client \<and> safra r = Some season
                          \<and> janela r = Some window)) table"
    by (simp add: delete_old_rows_from_database_def delete_rows_def)
next
  show "delete_old_rows_from_database False client window season table = table"
    by (simp add: delete_old_rows_from_database_def delete_rows_def)
next
  assume u: "\<forall>r\<in>set data. safra r = Some season \<and> janela r = Some window"
    and i: "insert_ndvi_data_into_database True ins to_datetime clients_data
          client window data season table = Inr table2"
  from u i show "insert_ndvi_data_into_database True ins to_datetime clients_data
          client window data season table2 = Inr table2"
    by (rule insert_twice)
  from i show "length table2
            = length (delete_old_rows_from_database True client window season table)
              + (if ins then length data else 0)"
    by (auto simp: insert_ndvi_data_into_database_def Let_def
        insert_dataframe_into_postgres_def split: list.splits)
next
  assume f: "insert_ndvi_data_into_database False True to_datetime clients_data
          client window data season table = Inr table3"
  from insert_after_failed_delete[OF f] show "data \<noteq> []"
    and "length table3 = length table + length data"
    by simp_all
qed

theorem loader_idempotent_when_delete_executes_witness:
  "\<exists>table1. main_unit True True id clientes 7 2025 ''J1'' three_polygons old_warehouse
                = Inr table1
      \<and> length table1 = 2
      \<and> main_unit True True id clientes 7 2025 ''J1'' three_polygons table1 = Inr table1"
proof -
  have "map_sum id length
          (main_unit True True id clientes 7 2025 ''J1'' three_polygons old_warehouse) = Inr 2"
    by code_simp
  then obtain table1
    where r: "main_unit True True id clientes 7 2025 ''J1'' three_polygons old_warehouse
                = Inr table1"
      and l: "length table1 = 2"
    by (cases "main_unit True True id clientes 7 2025 ''J1'' three_polygons old_warehouse") auto
  from loader_idempotent_when_delete_executes
         [of True id clientes 7 2025 "''J1''" three_polygons old_warehouse table1] r
  have "main_unit True True id clientes 7 2025 ''J1'' three_polygons table1 = Inr table1"
    by blast
  with r l show ?thesis by (intro exI[of _ table1]) simp
qed

text \<open>
  C8 as stated fails when the delete statement raises: \<open>delete_rows\<close> catches the error
  and the insert follows. The warehouse holds one row of the unit (7, 2025, J1) and one
  of another client, and the unit's summary is one row. One load with a failed delete
  leaves three rows, a second such load four; and after a load in which both statements
  are executed (two rows), a second load whose delete fails leaves three.
\<close>

theorem failed_delete_duplicates_rows:
  "map_sum id length
     (main_unit False True id clientes 7 2025 ''J1'' three_polygons old_warehouse) = Inr 3
   \<and> map_sum id length
       (and_then (main_unit False True id clientes 7 2025 ''J1'' three_polygons old_warehouse)
          (main_unit False True id clientes 7 2025 ''J1'' three_polygons)) = Inr 4
   \<and> map_sum id length
       (main_unit True True id clientes 7 2025 ''J1'' three_polygons old_warehouse) = Inr 2
   \<and> map_sum id length
       (and_then (main_unit True True id clientes 7 2025 ''J1'' three_polygons old_warehouse)
          (main_unit False True id clientes 7 2025 ''J1'' three_polygons)) = Inr 3"
  by code_simp

section \<open>Reprojection, repair and area\<close>

lemmas gis_eval = reproject_def reproject_to_utm_def Let_def stand_in_def mixed_collection_def
  northern_collection_def messy_collection_def
  field_north_def field_south_def reproject_epsg_def to_crs_def zone_number_def southern_def
  calculate_area_def Area_def and_then_def improve_geometry_def improve_geometry_collection_def
  MakeValidGeometries_def make_valid_geodataframe_def set_area_column_def geoM_type_list_def
  loc_set_geometry_def geometry_collection_to_multipolygon_def no_attrs_def

lemma round7_five_halves: "round7 (5 / 2) = 5 / 2"
  by (simp add: round7_def round_half_even_def Let_def)

lemma those_eq_Some: "those xs = Some ys \<longleftrightarrow> xs = map Some ys"
  by (induction xs arbitrary: ys) (auto split: option.splits)

lemma to_crs_Some:
  assumes "to_crs lib epsg fr = Some fr'"
  shows "crs fr' = Some epsg"
    and "\<exists>source. crs fr = Some source \<and>
           list_all2 (\<lambda>f f'. transform lib source epsg (geometry f) = Some (geometry f')
                            \<and> label f' = label f \<and> attrs f' = attrs f) (feats fr) (feats fr')"
proof -
  from assms obtain source gs where s: "crs fr = Some source"
    and t: "those (map (\<lambda>f. transform lib source epsg (geometry f)) (feats fr)) = Some gs"
    and fr': "fr' = fr\<lparr>crs := Some epsg, feats := map2 (\<lambda>f g. f\<lparr>geometry := g\<rparr>) (feats fr) gs\<rparr>"
    by (auto simp: to_crs_def split: option.splits)
  show "crs fr' = Some epsg" by (simp add: fr')
  from t have m: "map (\<lambda>f. transform lib source epsg (geometry f)) (feats fr) = map Some gs"
    by (simp add: those_eq_Some)
  then have len: "length gs = length (feats fr)" by (metis length_map)
  have "list_all2 (\<lambda>f f'. transform lib source epsg (geometry f) = Some (geometry f')
                            \<and> label f' = label f \<and> attrs f' = attrs f) (feats fr)
          (map2 (\<lambda>f g. f\<lparr>geometry := g\<rparr>) (feats fr) gs)"
  proof (rule list_all2_all_nthI)
    show "length (feats fr) = length (map2 (\<lambda>f g. f\<lparr>geometry := g\<rparr>) (feats fr) gs)"
      by (simp add: len)
  next
    fix n assume n: "n < length (feats fr)"
    from m n len have "transform lib source epsg (geometry (feats fr ! n)) = Some (gs ! n)"
      by (metis nth_map)
    with n len show "transform lib source epsg (geometry (feats fr ! n))
          = Some (geometry (map2 (\<lambda>f g. f\<lparr>geometry := g\<rparr>) (feats fr) gs ! n))
        \<and> label (map2 (\<lambda>f g. f\<lparr>geometry := g\<rparr>) (feats fr) gs ! n) = label (feats fr ! n)
        \<and> attrs (map2 (\<lambda>f g. f\<lparr>geometry := g\<rparr>) (feats fr) gs ! n) = attrs (feats fr ! n)"
      by simp
  qed
  with s show "\<exists>source. crs fr = Some source \<and>
           list_all2 (\<lambda>f f'. transform lib source epsg (geometry f) = Some (geometry f')
                            \<and> label f' = label f \<and> attrs f' = attrs f) (feats fr) (feats fr')"
    by (simp add: fr')
qed

lemma crs_reproject_epsg: "crs (reproject_epsg lib epsg fr) = Some epsg"
  by (cases "to_crs lib epsg fr") (simp_all add: reproject_epsg_def to_crs_Some(1))

lemma reproject_epsg_rows:
  "list_all2 (\<lambda>f f'. label f' = label f \<and> attrs f' = attrs f
                \<and> (geometry f' = geometry f
                    \<or> (\<exists>source. transform lib source epsg (geometry f) = Some (geometry f'))))
     (feats fr) (feats (reproject_epsg lib epsg fr))"
proof (cases "to_crs lib epsg fr")
  case None
  then show ?thesis by (simp add: reproject_epsg_def list_all2_same)
next
  case (Some fr')
  from to_crs_Some(2)[OF Some] obtain source where
    "list_all2 (\<lambda>f f'. transform lib source epsg (geometry f) = Some (geometry f')
                            \<and> label f' = label f \<and> attrs f' = attrs f) (feats fr) (feats fr')"
    by blast
  then have "list_all2 (\<lambda>f f'. label f' = label f \<and> attrs f' = attrs f
                \<and> (geometry f' = geometry f
                    \<or> (\<exists>source. transform lib source epsg (geometry f) = Some (geometry f'))))
     (feats fr) (feats fr')"
    by (rule list_all2_mono) blast
  with Some show ?thesis by (simp add: reproject_epsg_def)
qed

lemma reproject_epsg_attrs:
  "map attrs (feats (reproject_epsg lib epsg fr)) = map attrs (feats fr)"
  "length (feats (reproject_epsg lib epsg fr)) = length (feats fr)"
proof -
  from reproject_epsg_rows[of lib epsg fr]
  have a: "list_all2 (\<lambda>f f'. attrs f' = attrs f) (feats fr) (feats (reproject_epsg lib epsg fr))"
    by (rule list_all2_mono) blast
  then show "length (feats (reproject_epsg lib epsg fr)) = length (feats fr)"
    by (simp add: list_all2_lengthD)
  from a show "map attrs (feats (reproject_epsg lib epsg fr)) = map attrs (feats fr)"
    by (induction rule: list_all2_induct) simp_all
qed

lemma reproject_to_utm_rows_fold:
  assumes "reproject_to_utm_rows lib rws fr = Inr fr'"
  shows "fr' = foldl (\<lambda>acc f. reproject_epsg lib (utm_epsg lib f) acc) fr
                 (filter (southern lib) rws)"
  using assms
proof (induction rws arbitrary: fr)
  case Nil
  then show ?case by simp
next
  case (Cons row rest)
  from Cons.prems obtain utm_x utm_y band zone
    where fl: "from_latlon lib (snd (centroid lib (geometry row))) (fst (centroid lib (geometry row)))
                 = Some (utm_x, utm_y, band, zone)"
    by (cases "from_latlon lib (snd (centroid lib (geometry row)))
                 (fst (centroid lib (geometry row)))") (auto simp: Let_def)
  then have e: "utm_epsg lib row = 32700 + band" by (simp add: utm_epsg_def Let_def)
  show ?case
  proof (cases "southern lib row")
    case True
    with Cons.prems fl have "reproject_to_utm_rows lib rest (reproject_epsg lib (32700 + band) fr) = Inr fr'"
      by (simp add: Let_def southern_def)
    from Cons.IH[OF this] True e show ?thesis by simp
  next
    case False
    with Cons.prems fl have "reproject_to_utm_rows lib rest fr = Inr fr'"
      by (simp add: Let_def southern_def)
    from Cons.IH[OF this] False show ?thesis by simp
  qed
qed

lemma foldl_reproject_crs:
  "fs \<noteq> [] \<Longrightarrow> crs (foldl (\<lambda>acc f. reproject_epsg lib (utm_epsg lib f) acc) fr fs)
     = Some (utm_epsg lib (last fs))"
  by (induction fs arbitrary: fr rule: rev_induct) (simp_all add: crs_reproject_epsg)

lemma foldl_reproject_length:
  "length (feats (foldl (\<lambda>acc f. reproject_epsg lib (utm_epsg lib f) acc) fr fs))
     = length (feats fr)"
  by (induction fs arbitrary: fr) (simp_all add: reproject_epsg_attrs(2))

lemma foldl_reproject_attrs:
  "map attrs (feats (foldl (\<lambda>acc f. reproject_epsg lib (utm_epsg lib f) acc) fr fs))
     = map attrs (feats fr)"
  by (induction fs arbitrary: fr) (simp_all add: reproject_epsg_attrs(1))

text \<open>
  C7, as the code has it. The reprojection to the local UTM zone goes through the rows
  of the collection as it was given and, for every row whose centroid has a negative
  latitude, reprojects the whole collection to EPSG 32700 plus the zone number of that
  centroid. So every feature is converted each time, those with a northern centroid
  too; the result has one CRS, that of the last southern row; a collection without a
  southern centroid is returned as it is; and the number of features does not change.
  A conversion that succeeds transforms the geometry of every row.
\<close>

theorem reproject_to_utm_whole_collection:
  assumes "reproject lib UTM fr = Inr fr'"
  shows "fr' = foldl (\<lambda>acc f. reproject_epsg lib (utm_epsg lib f) acc) fr
                 (filter (southern lib) (feats fr))
     \<and> ((\<forall>f\<in>set (feats fr). \<not> southern lib f) \<longrightarrow> fr' = fr)
     \<and> ((\<exists>f\<in>set (feats fr). southern lib f) \<longrightarrow>
          crs fr' = Some (utm_epsg lib (last (filter (southern lib) (feats fr)))))
     \<and> length (feats fr') = length (feats fr)
     \<and> (\<forall>epsg fr1 fr2. to_crs lib epsg fr1 = Some fr2 \<longrightarrow>
          crs fr2 = Some epsg \<and>
          map (\<lambda>f. transform lib (the (crs fr1)) epsg (geometry f)) (feats fr1)
            = map (\<lambda>f. Some (geometry f)) (feats fr2))"
proof -
  from assms have r: "reproject_to_utm_rows lib (feats fr) fr = Inr fr'"
    by (simp add: reproject_def reproject_to_utm_def)
  note f = reproject_to_utm_rows_fold[OF r]
  have 2: "(\<forall>f\<in>set (feats fr). \<not> southern lib f) \<longrightarrow> fr' = fr"
  proof
    assume "\<forall>f\<in>set (feats fr). \<not> southern lib f"
    then have "filter (southern lib) (feats fr) = []" by (simp add: filter_empty_conv)
    with f show "fr' = fr" by simp
  qed
  have 3: "(\<exists>f\<in>set (feats fr). southern lib f) \<longrightarrow>
          crs fr' = Some (utm_epsg lib (last (filter (southern lib) (feats fr))))"
  proof
    assume "\<exists>f\<in>set (feats fr). southern lib f"
    then have "filter (southern lib) (feats fr) \<noteq> []" by (simp add: filter_empty_conv)
    then show "crs fr' = Some (utm_epsg lib (last (filter (southern lib) (feats fr))))"
      unfolding f by (rule foldl_reproject_crs)
  qed
  have 4: "length (feats fr') = length (feats fr)"
    unfolding f by (rule foldl_reproject_length)
  have 5: "\<forall>epsg fr1 fr2. to_crs lib epsg fr1 = Some fr2 \<longrightarrow>
          crs fr2 = Some epsg \<and>
          map (\<lambda>f. transform lib (the (crs fr1)) epsg (geometry f)) (feats fr1)
            = map (\<lambda>f. Some (geometry f)) (feats fr2)"
  proof (intro allI impI)
    fix epsg and fr1 fr2 :: "'a gdf"
    assume t: "to_crs lib epsg fr1 = Some fr2"
    from to_crs_Some(2)[OF t] obtain source where s: "crs fr1 = Some source"
      and l: "list_all2 (\<lambda>f f'. transform lib source epsg (geometry f) = Some (geometry f')
                            \<and> label f' = label f \<and> attrs f' = attrs f) (feats fr1) (feats fr2)"
      by blast
    from l have "map (\<lambda>f. transform lib source epsg (geometry f)) (feats fr1)
            = map (\<lambda>f. Some (geometry f)) (feats fr2)"
      by (induction rule: list_all2_induct) simp_all
    with s to_crs_Some(1)[OF t] show "crs fr2 = Some epsg \<and>
          map (\<lambda>f. transform lib (the (crs fr1)) epsg (geometry f)) (feats fr1)
            = map (\<lambda>f. Some (geometry f)) (feats fr2)" by simp
  qed
  from f 2 3 4 5 show ?thesis by blast
qed

theorem reproject_to_utm_whole_collection_witness:
  "\<exists>fr'. reproject stand_in UTM mixed_collection = Inr fr'
      \<and> list_ex (southern stand_in) (feats mixed_collection)
      \<and> crs fr' = Some 32723
      \<and> length (feats fr') = 2"
proof -
  have "map_sum id (\<lambda>fr. (crs fr, length (feats fr))) (reproject stand_in UTM mixed_collection)
          = Inr (Some 32723, 2)"
    by (simp add: gis_eval round7_five_halves)
  then obtain fr' where r: "reproject stand_in UTM mixed_collection = Inr fr'"
    and c: "crs fr' = Some 32723" "length (feats fr') = 2"
    by (cases "reproject stand_in UTM mixed_collection") auto
  have s: "list_ex (southern stand_in) (feats mixed_collection)"
    by (simp add: gis_eval round7_five_halves)
  then have "\<exists>f\<in>set (feats mixed_collection). southern stand_in f"
    by (simp add: list_ex_iff)
  with reproject_to_utm_whole_collection[OF r]
  have "crs fr' = Some (utm_epsg stand_in
                         (last (filter (southern stand_in) (feats mixed_collection))))"
    by blast
  with r s c show ?thesis by (intro exI[of _ fr']) simp
qed

text \<open>
  C7 as stated fails: the first field of this collection has its centroid north of the
  equator, and the reprojection to the local UTM zone converts it with the southern one
  to EPSG 32723; the collection has that one CRS.
\<close>

theorem northern_feature_is_converted:
  "\<not> southern stand_in field_north
   \<and> map (\<lambda>f. code (geometry f)) (feats mixed_collection) = [4674, 4674]
   \<and> map_sum id (\<lambda>fr. (crs fr, map (\<lambda>f. code (geometry f)) (feats fr)))
         (reproject stand_in UTM mixed_collection)
       = Inr (Some 32723, [32723, 32723])"
  by (simp add: gis_eval round7_five_halves)

lemma loc_set_geometry_frame:
  "map attrs (loc_set_geometry i upd fs) = map attrs fs"
  "map label (loc_set_geometry i upd fs) = map label fs"
  by (simp_all add: loc_set_geometry_def o_def)

lemma improve_geometry_collection_rows_frame:
  assumes "improve_geometry_collection_rows lib rws fs = Inr fs'"
  shows "map attrs fs' = map attrs fs"
  using assms
proof (induction rws arbitrary: fs)
  case Nil
  then show ?case by simp
next
  case (Cons row rest)
  show ?case
  proof (cases "geom_type_of lib (geometry row) = GeometryCollection")
    case True
    with Cons.prems obtain g where
      "improve_geometry_collection_rows lib rest (loc_set_geometry (label row) (\<lambda>_. g) fs) = Inr fs'"
      by (cases "geometry_collection_to_multipolygon lib (geometry row)")
        (auto split: if_splits)
    from Cons.IH[OF this] show ?thesis by (simp add: loc_set_geometry_frame)
  next
    case False
    with Cons.prems Cons.IH show ?thesis by simp
  qed
qed

lemma make_valid_rows_frame: "map attrs (make_valid_rows lib rws fs) = map attrs fs"
  by (induction rws arbitrary: fs) (simp_all add: Let_def loc_set_geometry_frame)

lemma improve_geometry_Inr:
  assumes "improve_geometry lib fr = Inr out"
  shows "\<exists>fs1. improve_geometry_collection_rows lib (filter (kept lib) (feats fr))
                 (filter (kept lib) (feats fr)) = Inr fs1
      \<and> out = reproject_epsg lib 4326
                 (fr\<lparr>feats := map (\<lambda>f. f\<lparr>geometry := buffer lib 0 (geometry f)\<rparr>)
                                 (make_valid_rows lib fs1 fs1)\<rparr>)"
proof -
  have m: "MakeValidGeometries lib fr = fr\<lparr>feats := filter (kept lib) (feats fr)\<rparr>"
    by (simp add: MakeValidGeometries_def kept_def[abs_def])
  from assms obtain fr1
    where c: "improve_geometry_collection lib (fr\<lparr>feats := filter (kept lib) (feats fr)\<rparr>) = Inr fr1"
      and o: "out = make_valid_geodataframe lib fr1"
    unfolding improve_geometry_def m and_then_def
    by (cases "improve_geometry_collection lib (fr\<lparr>feats := filter (kept lib) (feats fr)\<rparr>)")
      simp_all
  from c obtain fs1
    where r: "improve_geometry_collection_rows lib (filter (kept lib) (feats fr))
                 (filter (kept lib) (feats fr)) = Inr fs1"
      and fr1: "fr1 = fr\<lparr>feats := fs1\<rparr>"
    unfolding improve_geometry_collection_def and_then_def
    by (cases "improve_geometry_collection_rows lib (filter (kept lib) (feats fr))
                 (filter (kept lib) (feats fr))") auto
  have "out = reproject_epsg lib 4326
                 (fr\<lparr>feats := map (\<lambda>f. f\<lparr>geometry := buffer lib 0 (geometry f)\<rparr>)
                                 (make_valid_rows lib fs1 fs1)\<rparr>)"
    by (simp add: o fr1 make_valid_geodataframe_def Let_def)
  with r show ?thesis by blast
qed

lemma list_all2_member:
  assumes "list_all2 P xs ys" and "y \<in> set ys"
  shows "\<exists>x\<in>set xs. P x y"
  using assms by (induction rule: list_all2_induct) auto

lemma improve_geometry_frame:
  assumes "improve_geometry lib fr = Inr out"
  shows "map attrs (feats out) = map attrs (filter (kept lib) (feats fr))"
    and "crs out = Some 4326"
proof -
  from improve_geometry_Inr[OF assms] obtain fs1
    where 1: "improve_geometry_collection_rows lib (filter (kept lib) (feats fr))
                 (filter (kept lib) (feats fr)) = Inr fs1"
      and out: "out = reproject_epsg lib 4326
                 (fr\<lparr>feats := map (\<lambda>f. f\<lparr>geometry := buffer lib 0 (geometry f)\<rparr>)
                                 (make_valid_rows lib fs1 fs1)\<rparr>)"
    by blast
  show "crs out = Some 4326" by (simp add: out crs_reproject_epsg)
  show "map attrs (feats out) = map attrs (filter (kept lib) (feats fr))"
    by (simp add: out reproject_epsg_attrs(1) o_def make_valid_rows_frame
        improve_geometry_collection_rows_frame[OF 1])
qed

text \<open>
  C1. Given that a buffer of shapely is a valid Polygon or MultiPolygon and that a
  coordinate transform keeps the type and the validity of a geometry, every feature
  that \<open>improve_geometry\<close> returns has a valid geometry of type Polygon or
  MultiPolygon: \<open>buffer(0)\<close> is applied to every row last, before the reprojection
  to EPSG 4326.
\<close>

theorem improve_geometry_valid_polygonal:
  assumes "buffer_contract lib" and "transform_contract lib"
    and "improve_geometry lib fr = Inr out"
  shows "\<forall>f\<in>set (feats out). is_valid lib (geometry f) \<and> polygonal lib (geometry f)"
proof -
  from improve_geometry_Inr[OF assms(3)] obtain fs1
    where out: "out = reproject_epsg lib 4326
                 (fr\<lparr>feats := map (\<lambda>f. f\<lparr>geometry := buffer lib 0 (geometry f)\<rparr>)
                                 (make_valid_rows lib fs1 fs1)\<rparr>)"
    by blast
  let ?fr2 = "fr\<lparr>feats := map (\<lambda>f. f\<lparr>geometry := buffer lib 0 (geometry f)\<rparr>)
                                 (make_valid_rows lib fs1 fs1)\<rparr>"
  let ?P = "\<lambda>g. is_valid lib g \<and> polygonal lib g"
  have b: "\<forall>f\<in>set (feats ?fr2). ?P (geometry f)"
    using assms(1) by (auto simp: buffer_contract_def)
  have t: "\<And>s g g'. transform lib s 4326 g = Some g' \<Longrightarrow> ?P g \<Longrightarrow> ?P g'"
  proof -
    fix s g g' assume tr: "transform lib s 4326 g = Some g'" and p: "?P g"
    from assms(2) tr have "geom_type_of lib g' = geom_type_of lib g"
      and "is_valid lib g \<longrightarrow> is_valid lib g'"
      unfolding transform_contract_def by blast+
    with p show "?P g'" by (simp add: polygonal_def)
  qed
  from reproject_epsg_rows[of lib 4326 ?fr2]
  have l: "list_all2 (\<lambda>f f'. geometry f' = geometry f
                    \<or> (\<exists>source. transform lib source 4326 (geometry f) = Some (geometry f')))
     (feats ?fr2) (feats out)"
    unfolding out by (rule list_all2_mono) blast
  show ?thesis
  proof
    fix f' assume "f' \<in> set (feats out)"
    from list_all2_member[OF l this] obtain f where f: "f \<in> set (feats ?fr2)"
      and c: "geometry f' = geometry f
                \<or> (\<exists>source. transform lib source 4326 (geometry f) = Some (geometry f'))"
      by blast
    from b f have p: "?P (geometry f)" by blast
    from c show "?P (geometry f')"
    proof
      assume "geometry f' = geometry f"
      with p show ?thesis by simp
    next
      assume "\<exists>source. transform lib source 4326 (geometry f) = Some (geometry f')"
      then obtain source where "transform lib source 4326 (geometry f) = Some (geometry f')"
        by blast
      from t[OF this p] show ?thesis .
    qed
  qed
qed

theorem improve_geometry_valid_polygonal_witness:
  "buffer_contract stand_in \<and> transform_contract stand_in
   \<and> (\<exists>out. improve_geometry stand_in messy_collection = Inr out
          \<and> map (\<lambda>f. (label f, kind (geometry f))) (feats out)
              = [(0, MultiPolygon), (2, Polygon)]
          \<and> list_all (\<lambda>f. is_valid stand_in (geometry f) \<and> polygonal stand_in (geometry f))
               (feats out))"
proof -
  have b: "buffer_contract stand_in"
    by (simp add: buffer_contract_def stand_in_def polygonal_def)
  have t: "transform_contract stand_in"
    by (auto simp: transform_contract_def stand_in_def)
  have "map_sum id (map (\<lambda>f. (label f, kind (geometry f))) \<circ> feats)
          (improve_geometry stand_in messy_collection)
          = Inr [(0, MultiPolygon), (2, Polygon)]"
    by (simp add: gis_eval round7_five_halves)
  then obtain out where r: "improve_geometry stand_in messy_collection = Inr out"
    and m: "map (\<lambda>f. (label f, kind (geometry f))) (feats out) = [(0, MultiPolygon), (2, Polygon)]"
    by (cases "improve_geometry stand_in messy_collection") auto
  from improve_geometry_valid_polygonal[OF b t r]
  have "list_all (\<lambda>f. is_valid stand_in (geometry f) \<and> polygonal stand_in (geometry f))
               (feats out)"
    by (simp add: list_all_iff)
  with r m have "\<exists>out. improve_geometry stand_in messy_collection = Inr out
          \<and> map (\<lambda>f. (label f, kind (geometry f))) (feats out)
              = [(0, MultiPolygon), (2, Polygon)]
          \<and> list_all (\<lambda>f. is_valid stand_in (geometry f) \<and> polygonal stand_in (geometry f))
               (feats out)"
    by (intro exI[of _ out]) simp
  with b t show ?thesis by simp
qed

lemma filter_kept_set_area_column:
  "filter (kept lib) (feats (set_area_column lib column fr))
     = map (\<lambda>f. f\<lparr>attrs := (attrs f)(column \<mapsto>
                        Number (round7 (area lib (geometry f) / 10000)))\<rparr>)
         (filter (kept lib) (feats fr))"
  by (simp add: set_area_column_def filter_map o_def kept_def[abs_def])

text \<open>
  C10, as the code has it. When no centroid has a negative latitude, the constructor of
  \<open>Area\<close> returns the collection as it is, so the area column holds the area of each
  geometry in the units of the input CRS, divided by 10000 and rounded to 7 decimals.
  \<open>calculate_area\<close> then repairs the collection: the result has the rows that the
  repair keeps, with these area values, and is reprojected to EPSG 4326.
\<close>

theorem calculate_area_northern:
  assumes "\<forall>f\<in>set (feats fr). \<not> southern lib f"
    and "calculate_area lib column fr = Inr out"
  shows "Area lib fr = Inr fr
     \<and> map attrs (feats out)
         = map (\<lambda>f. (attrs f)(column \<mapsto> Number (round7 (area lib (geometry f) / 10000))))
             (filter (kept lib) (feats fr))
     \<and> crs out = Some 4326"
proof -
  from assms(2) obtain fr1 where a: "Area lib fr = Inr fr1"
    and i: "improve_geometry lib (set_area_column lib column fr1) = Inr out"
    by (cases "Area lib fr") (auto simp: calculate_area_def and_then_def)
  from a have "reproject lib UTM fr = Inr fr1" by (simp add: Area_def)
  then have "reproject_to_utm_rows lib (feats fr) fr = Inr fr1"
    by (simp add: reproject_def reproject_to_utm_def)
  from reproject_to_utm_rows_fold[OF this] assms(1) have fr1: "fr1 = fr"
    by (simp add: filter_empty_conv[THEN iffD2])
  from improve_geometry_frame[OF i]
  have "map attrs (feats out)
         = map (\<lambda>f. (attrs f)(column \<mapsto> Number (round7 (area lib (geometry f) / 10000))))
             (filter (kept lib) (feats fr))"
    and "crs out = Some 4326"
    by (simp_all add: filter_kept_set_area_column fr1 o_def)
  with a fr1 show ?thesis by simp
qed

theorem calculate_area_northern_witness:
  "list_all (\<lambda>f. \<not> southern stand_in f) (feats northern_collection)
   \<and> (\<exists>out. calculate_area stand_in ''AREA_CALC'' northern_collection = Inr out
          \<and> Area stand_in northern_collection = Inr northern_collection
          \<and> map (\<lambda>f. attrs f ''AREA_CALC'') (feats out) = [Some (Number (5 / 2))]
          \<and> crs out = Some 4326)"
proof -
  have n: "list_all (\<lambda>f. \<not> southern stand_in f) (feats northern_collection)"
    by (simp add: gis_eval round7_five_halves)
  then have n': "\<forall>f\<in>set (feats northern_collection). \<not> southern stand_in f"
    by (simp add: list_all_iff)
  have "map_sum id (\<lambda>fr. map (\<lambda>f. attrs f ''AREA_CALC'') (feats fr))
          (calculate_area stand_in ''AREA_CALC'' northern_collection)
          = Inr [Some (Number (5 / 2))]"
    by (simp add: gis_eval round7_five_halves)
  then obtain out where r: "calculate_area stand_in ''AREA_CALC'' northern_collection = Inr out"
    and m: "map (\<lambda>f. attrs f ''AREA_CALC'') (feats out) = [Some (Number (5 / 2))]"
    by (cases "calculate_area stand_in ''AREA_CALC'' northern_collection") auto
  from calculate_area_northern[OF n' r]
  have "Area stand_in northern_collection = Inr northern_collection" and "crs out = Some 4326"
    by simp_all
  with r m have "\<exists>out. calculate_area stand_in ''AREA_CALC'' northern_collection = Inr out
          \<and> Area stand_in northern_collection = Inr northern_collection
          \<and> map (\<lambda>f. attrs f ''AREA_CALC'') (feats out) = [Some (Number (5 / 2))]
          \<and> crs out = Some 4326"
    by (intro exI[of _ out]) simp
  with n show ?thesis by simp
qed

text \<open>
  C10 as stated fails: the only field of this collection lies north of the equator and
  the collection is in EPSG 4674; \<open>calculate_area\<close> returns it transformed to EPSG 4326.
\<close>

theorem calculate_area_reprojects:
  "list_all (\<lambda>f. \<not> southern stand_in f) (feats northern_collection)
   \<and> crs northern_collection = Some 4674
   \<and> map_sum id (\<lambda>fr. (crs fr, map (\<lambda>f. code (geometry f)) (feats fr)))
         (calculate_area stand_in ''AREA_CALC'' northern_collection)
       = Inr (Some 4326, [4326])"
  by (simp add: gis_eval round7_five_halves)

end
